theory Spec2Isabelle
  imports Complex_Main
begin

section \<open>Data model\<close>

text \<open>
  A grey image is a grid of 8-bit intensities, kept as its list of rows. A frame handed
  to the detector is either such a grid (two-dimensional array) or an array with a third
  axis of colour channels. Scores are Python floats; they are modelled as real numbers,
  so rounding, infinities and NaN are outside the model.
\<close>

type_synonym image = "nat list list"

type_synonym point = "real \<times> real"

type_synonym descriptors = "nat list list"

datatype frame = Plane image | Channels "nat list list list"

record keypoint =
  pt :: point

record dmatch =
  queryIdx :: nat
  trainIdx :: nat
  distance :: real

record homography =
  h00 :: real
  h01 :: real
  h02 :: real
  h10 :: real
  h11 :: real
  h12 :: real
  h20 :: real
  h21 :: real
  h22 :: real

datatype error = IndexError | TypeError

text \<open>
  The OpenCV routines the repository calls are not part of it. They are parameters of
  the model, collected in one record. A routine called inside a \<open>try\<close> block returns an
  option, \<open>None\<close> standing for a raised exception; \<open>goodFeaturesToTrack\<close> may in
  addition return Python's \<open>None\<close> (no corner found), and \<open>detectAndCompute\<close> returns
  \<open>None\<close> for the descriptors of a frame without keypoints. The routines that
  \<open>detect\<close> calls outside any \<open>try\<close> block are total functions here: an exception
  raised inside OpenCV itself (on a malformed array, or by \<open>findHomography\<close> on fewer than
  four point pairs) is outside the model, while the exceptions of the repository's own
  statements (subscripting the keypoint tuples) are results of type \<open>error\<close>.
\<close>

record cv2 =
  cvtColor :: "nat list list list \<Rightarrow> image"
  GaussianBlur :: "image \<Rightarrow> image"
  detectAndCompute :: "image \<Rightarrow> keypoint list \<times> descriptors option"
  bf_match :: "descriptors \<Rightarrow> descriptors \<Rightarrow> dmatch list"
  findHomography :: "point list \<Rightarrow> point list \<Rightarrow> homography option"
  absdiff :: "image \<Rightarrow> image \<Rightarrow> image option"
  threshold :: "image \<Rightarrow> real \<Rightarrow> nat \<Rightarrow> image option"
  goodFeaturesToTrack :: "image \<Rightarrow> point list option option"
  calcOpticalFlowPyrLK :: "image \<Rightarrow> image \<Rightarrow> point list \<Rightarrow> (point list \<times> nat list) option"
  Canny :: "image \<Rightarrow> image option"

record config =
  threshold_feature :: real
  threshold_homography :: real
  min_match_count :: int

record detection_result =
  movement_indices :: "nat list"
  movement_scores :: "real list"
  transformation_matrices :: "homography option list"

text \<open>The loop of \<open>detect\<close> carries the three result lists and the previous frame's data.\<close>

record loop_state = detection_result +
  prev_frame :: "image option"
  prev_kp :: "keypoint list option"
  prev_des :: "descriptors option"

section \<open>NumPy helpers\<close>

text \<open>
  \<open>np.mean\<close> and \<open>np.var\<close> (the population variance). On an empty array NumPy warns and
  yields NaN without raising; the division by zero of the model yields 0 there.
\<close>

definition np_mean :: "real list \<Rightarrow> real" where
  "np_mean xs = sum_list xs / real (length xs)"

definition np_var :: "real list \<Rightarrow> real" where
  "np_var xs = np_mean (map (\<lambda>x. (x - np_mean xs)\<^sup>2) xs)"

text \<open>
  \<open>np.median\<close>: the middle element of the sorted values, the mean of the two middle ones
  for an even count. The source never takes the median of an empty array; the model gives 0
  there.
\<close>

definition np_median :: "real list \<Rightarrow> real" where
  "np_median xs =
     (let s = sort xs; n = length xs in
      if n = 0 then 0
      else if odd n then s ! (n div 2)
      else (s ! (n div 2 - 1) + s ! (n div 2)) / 2)"

definition point_diff :: "point \<Rightarrow> point \<Rightarrow> point" where
  "point_diff a b = (fst a - fst b, snd a - snd b)"

definition point_norm :: "point \<Rightarrow> real" where
  "point_norm p = sqrt ((fst p)\<^sup>2 + (snd p)\<^sup>2)"

text \<open>
  Subtraction of two arrays of rows \<open>a - b\<close> with NumPy's broadcasting: equal row counts
  subtract row by row, a single row is subtracted from (or has subtracted) every row, and
  any other pair of shapes raises (\<open>None\<close>).
\<close>

definition np_sub_rows :: "point list \<Rightarrow> point list \<Rightarrow> point list option" where
  "np_sub_rows a b =
     (if length a = length b then Some (map2 point_diff a b)
      else (case b of [q] \<Rightarrow> Some (map (\<lambda>p. point_diff p q) a)
            | _ \<Rightarrow> (case a of [p] \<Rightarrow> Some (map (\<lambda>q. point_diff p q) b) | _ \<Rightarrow> None)))"

text \<open>\<open>np.arctan2 y x\<close>, the angle of the point \<open>(x, y)\<close> in \<open>(-pi, pi]\<close>.\<close>

definition arctan2 :: "real \<Rightarrow> real \<Rightarrow> real" where
  "arctan2 y x =
     (if 0 < x then arctan (y / x)
      else if x < 0 then (if 0 \<le> y then arctan (y / x) + pi else arctan (y / x) - pi)
      else if 0 < y then pi / 2
      else if y < 0 then - (pi / 2)
      else 0)"

text \<open>Boolean-mask selection \<open>xs[status == 1]\<close>; a mask of another length raises.\<close>

definition mask_select :: "'a list \<Rightarrow> nat list \<Rightarrow> 'a list option" where
  "mask_select xs status =
     (if length xs = length status
      then Some (map fst (filter (\<lambda>p. snd p = 1) (zip xs status)))
      else None)"

section \<open>scoring.py\<close>

text \<open>
  \<open>calculate_movement_score\<close>: with a matrix, the weighted decomposition; without one, the
  median displacement plus a tenth of the variance. Both branches sit in \<open>try\<close> blocks
  whose \<open>except\<close> returns 0.0; the only operation that can raise on these types is the
  subtraction of two arrays of incompatible shapes.
\<close>

definition calculate_movement_score ::
  "homography option \<Rightarrow> point list \<Rightarrow> point list \<Rightarrow> real" where
  "calculate_movement_score H src_pts dst_pts =
     (case H of
        Some h \<Rightarrow>
          (let translation_magnitude = sqrt ((h02 h)\<^sup>2 + (h12 h)\<^sup>2);
               rotation_magnitude = \<bar>arctan2 (h10 h) (h00 h)\<bar>;
               scale_x = sqrt ((h00 h)\<^sup>2 + (h10 h)\<^sup>2);
               scale_y = sqrt ((h01 h)\<^sup>2 + (h11 h)\<^sup>2);
               scale_change = \<bar>1 - (scale_x + scale_y) / 2\<bar>;
               perspective_dist = \<bar>h20 h\<bar> + \<bar>h21 h\<bar>
           in if length src_pts > 0 \<and> length dst_pts > 0
              then (case np_sub_rows dst_pts src_pts of
                      None \<Rightarrow> 0
                    | Some d \<Rightarrow>
                        (let displacements = map point_norm d;
                             displacement_variance =
                               (if length displacements > 1 then np_var displacements else 0)
                         in translation_magnitude * 1.5 + rotation_magnitude * 30
                            + scale_change * 50 + perspective_dist * 20
                            + displacement_variance * 0.1))
              else translation_magnitude * 1.5 + rotation_magnitude * 30
                   + scale_change * 50 + perspective_dist * 20 + 0 * 0.1)
      | None \<Rightarrow>
          (if length src_pts = 0 \<or> length dst_pts = 0 then 0
           else (case np_sub_rows dst_pts src_pts of
                   None \<Rightarrow> 0
                 | Some d \<Rightarrow>
                     (let displacements = map point_norm d;
                          median_displacement = np_median displacements;
                          displacement_variance = np_var displacements
                      in median_displacement + displacement_variance * 0.1))))"

section \<open>utils.py\<close>

text \<open>
  Each of the three signals is computed inside \<open>try\<close> with a bare \<open>except\<close> that returns
  0.0, so every \<open>None\<close> (exception) of an OpenCV routine and of the array operations
  becomes the score 0. \<open>thresh.shape[0] * thresh.shape[1]\<close> is the number of rows times the
  length of a row.
\<close>

definition calculate_frame_difference_score :: "cv2 \<Rightarrow> image \<Rightarrow> image \<Rightarrow> real" where
  "calculate_frame_difference_score cv prv cur =
     (case absdiff cv prv cur of
        None \<Rightarrow> 0
      | Some diff \<Rightarrow>
          (case threshold cv diff 25 255 of
             None \<Rightarrow> 0
           | Some thresh \<Rightarrow>
               (let changed_pixels = length (filter (\<lambda>p. p > 0) (concat thresh));
                    total_pixels = length thresh * (case thresh of [] \<Rightarrow> 0 | r # _ \<Rightarrow> length r);
                    change_percentage = (real changed_pixels / real total_pixels) * 100;
                    mean_diff = np_mean (map real (concat diff))
                in change_percentage + mean_diff * 0.1)))"

definition calculate_optical_flow_score :: "cv2 \<Rightarrow> image \<Rightarrow> image \<Rightarrow> real" where
  "calculate_optical_flow_score cv prv cur =
     (case goodFeaturesToTrack cv prv of
        None \<Rightarrow> 0
      | Some None \<Rightarrow> 0
      | Some (Some corners) \<Rightarrow>
          (if length corners > 10
           then (case calcOpticalFlowPyrLK cv prv cur corners of
                   None \<Rightarrow> 0
                 | Some (next_corners, status) \<Rightarrow>
                     (case mask_select corners status of
                        None \<Rightarrow> 0
                      | Some good_old \<Rightarrow>
                          (case mask_select next_corners status of
                             None \<Rightarrow> 0
                           | Some good_new \<Rightarrow>
                               (if length good_old > 5
                                then (case np_sub_rows good_new good_old of
                                        None \<Rightarrow> 0
                                      | Some d \<Rightarrow> np_median (map point_norm d) * 3)
                                else 0))))
           else 0))"

definition calculate_edge_motion_score :: "cv2 \<Rightarrow> image \<Rightarrow> image \<Rightarrow> real" where
  "calculate_edge_motion_score cv prv cur =
     (case Canny cv prv of
        None \<Rightarrow> 0
      | Some edges_prev \<Rightarrow>
          (case Canny cv cur of
             None \<Rightarrow> 0
           | Some edges_curr \<Rightarrow>
               (case absdiff cv edges_prev edges_curr of
                  None \<Rightarrow> 0
                | Some edge_diff \<Rightarrow> np_mean (map real (concat edge_diff)) * 0.5)))"

section \<open>detector.py\<close>

text \<open>Lines 24-28: grey conversion and smoothing of the incoming frame.\<close>

definition to_gray :: "cv2 \<Rightarrow> frame \<Rightarrow> image" where
  "to_gray cv fr = GaussianBlur cv (case fr of Channels c \<Rightarrow> cvtColor cv c | Plane g \<Rightarrow> g)"

text \<open>Lines 34-39: the matches sorted by distance and the adaptive filter on them.\<close>

definition good_matches_of :: "cv2 \<Rightarrow> descriptors \<Rightarrow> descriptors \<Rightarrow> dmatch list" where
  "good_matches_of cv pd des =
     (let matches = sort_key distance (bf_match cv pd des) in
      case matches of
        [] \<Rightarrow> []
      | m0 # _ \<Rightarrow>
          (let distance_threshold = min 50 (distance m0 * 2.5)
           in filter (\<lambda>m. distance m < distance_threshold) matches))"

text \<open>
  The list comprehensions of lines 41-42: \<open>[kps[i].pt for i in idxs]\<close>. Subscripting
  \<open>None\<close> raises TypeError, an index past the end raises IndexError; an empty index list
  evaluates nothing.
\<close>

fun gather_pts :: "keypoint list option \<Rightarrow> nat list \<Rightarrow> error + point list" where
  "gather_pts kps [] = Inr []"
| "gather_pts kps (i # is) =
     (case kps of
        None \<Rightarrow> Inl TypeError
      | Some ks \<Rightarrow>
          (if i < length ks
           then (case gather_pts kps is of Inl e \<Rightarrow> Inl e | Inr ps \<Rightarrow> Inr (pt (ks ! i) # ps))
           else Inl IndexError))"

text \<open>
  Lines 40-51: the geometric estimate. The value is the list of indices appended to
  \<open>movement_indices\<close> by these lines, the movement score and the matrix \<open>H\<close>.
\<close>

definition homography_block ::
  "cv2 \<Rightarrow> config \<Rightarrow> nat \<Rightarrow> keypoint list option \<Rightarrow> keypoint list \<Rightarrow> dmatch list
     \<Rightarrow> error + (nat list \<times> real \<times> homography option)" where
  "homography_block cv cfg idx pkp kp good_matches =
     (if int (length good_matches) \<ge> min_match_count cfg
      then (case gather_pts pkp (map queryIdx good_matches) of
              Inl e \<Rightarrow> Inl e
            | Inr src_pts \<Rightarrow>
                (case gather_pts (Some kp) (map trainIdx good_matches) of
                   Inl e \<Rightarrow> Inl e
                 | Inr dst_pts \<Rightarrow>
                     (case findHomography cv src_pts dst_pts of
                        Some h \<Rightarrow>
                          (let movement_score = calculate_movement_score (Some h) src_pts dst_pts
                           in Inr (if movement_score > threshold_homography cfg then [idx] else [],
                                   movement_score, Some h))
                      | None \<Rightarrow>
                          (let movement_score = calculate_movement_score None src_pts dst_pts
                           in Inr (if movement_score > threshold_homography cfg * 0.5
                                   then [idx] else [],
                                   movement_score, None)))))
      else Inr ([], 0, None))"

text \<open>Lines 53-60: the three fallback signals and their maximum.\<close>

definition fallback_score :: "cv2 \<Rightarrow> image \<Rightarrow> image \<Rightarrow> real" where
  "fallback_score cv pf gray =
     Max (set [calculate_frame_difference_score cv pf gray,
               calculate_optical_flow_score cv pf gray,
               calculate_edge_motion_score cv pf gray])"

text \<open>Lines 52-62: the fallback, entered on a zero score or on too few good matches.\<close>

definition fallback_block ::
  "cv2 \<Rightarrow> config \<Rightarrow> nat \<Rightarrow> image \<Rightarrow> image \<Rightarrow> dmatch list
     \<Rightarrow> nat list \<times> real \<times> homography option \<Rightarrow> nat list \<times> real \<times> homography option" where
  "fallback_block cv cfg idx pf gray good_matches r =
     (case r of (flagged, movement_score, H) \<Rightarrow>
        if movement_score = 0 \<or> int (length good_matches) < min_match_count cfg
        then (let movement_score' = fallback_score cv pf gray
              in (flagged @ (if movement_score' > threshold_feature cfg then [idx] else []),
                  movement_score', H))
        else (flagged, movement_score, H))"

text \<open>Lines 34-62: the comparison of two frames that both have descriptors.\<close>

definition transition_block ::
  "cv2 \<Rightarrow> config \<Rightarrow> nat \<Rightarrow> image \<Rightarrow> keypoint list option \<Rightarrow> descriptors
     \<Rightarrow> image \<Rightarrow> keypoint list \<Rightarrow> descriptors
     \<Rightarrow> error + (nat list \<times> real \<times> homography option)" where
  "transition_block cv cfg idx pf pkp pd gray kp d =
     (let good_matches = good_matches_of cv pd d in
      case homography_block cv cfg idx pkp kp good_matches of
        Inl e \<Rightarrow> Inl e
      | Inr r \<Rightarrow> Inr (fallback_block cv cfg idx pf gray good_matches r))"

text \<open>Lines 72-74: the current frame becomes the previous one.\<close>

definition rotate_prev :: "image \<Rightarrow> keypoint list \<Rightarrow> descriptors option \<Rightarrow> loop_state \<Rightarrow> loop_state" where
  "rotate_prev gray kp des s = s\<lparr>prev_frame := Some gray, prev_kp := Some kp, prev_des := des\<rparr>"

text \<open>Lines 63-64, 66-67 and 70-71: one score and one matrix are appended.\<close>

definition record_transition ::
  "nat list \<Rightarrow> real \<Rightarrow> homography option \<Rightarrow> loop_state \<Rightarrow> loop_state" where
  "record_transition flagged movement_score H s =
     s\<lparr>movement_indices := movement_indices s @ flagged,
       movement_scores := movement_scores s @ [movement_score],
       transformation_matrices := transformation_matrices s @ [H]\<rparr>"

text \<open>Lines 23-74: one iteration of the loop over \<open>enumerate(frames)\<close>.\<close>

definition detect_step :: "cv2 \<Rightarrow> config \<Rightarrow> nat \<Rightarrow> frame \<Rightarrow> loop_state \<Rightarrow> error + loop_state" where
  "detect_step cv cfg idx fr s =
     (let gray = to_gray cv fr in
      case detectAndCompute cv gray of (kp, des) \<Rightarrow>
        (case (prev_frame s, prev_des s, des) of
           (Some pf, Some pd, Some d) \<Rightarrow>
             (if length pd > 0 \<and> length d > 0
              then (case transition_block cv cfg idx pf (prev_kp s) pd gray kp d of
                      Inl e \<Rightarrow> Inl e
                    | Inr (flagged, movement_score, H) \<Rightarrow>
                        Inr (rotate_prev gray kp des (record_transition flagged movement_score H s)))
              else Inr (rotate_prev gray kp des (record_transition [] 0 None s)))
         | _ \<Rightarrow>
             Inr (rotate_prev gray kp des (if idx > 0 then record_transition [] 0 None s else s))))"

fun detect_loop :: "cv2 \<Rightarrow> config \<Rightarrow> nat \<Rightarrow> frame list \<Rightarrow> loop_state \<Rightarrow> error + loop_state" where
  "detect_loop cv cfg idx [] s = Inr s"
| "detect_loop cv cfg idx (fr # frs) s =
     (case detect_step cv cfg idx fr s of
        Inl e \<Rightarrow> Inl e
      | Inr s' \<Rightarrow> detect_loop cv cfg (Suc idx) frs s')"

definition initial_state :: loop_state where
  "initial_state =
     \<lparr>movement_indices = [], movement_scores = [], transformation_matrices = [],
      prev_frame = None, prev_kp = None, prev_des = None\<rparr>"

definition detect :: "cv2 \<Rightarrow> config \<Rightarrow> frame list \<Rightarrow> error + detection_result" where
  "detect cv cfg frames =
     (case detect_loop cv cfg 0 frames initial_state of
        Inl e \<Rightarrow> Inl e
      | Inr s \<Rightarrow>
          Inr \<lparr>movement_indices = movement_indices s,
               movement_scores = movement_scores s,
               transformation_matrices = transformation_matrices s\<rparr>)"

section \<open>Contract of the OpenCV routines and loop invariants\<close>

text \<open>
  What \<open>detect\<close> relies on to index the keypoint tuples without an IndexError:
  \<open>detectAndCompute\<close> returns one descriptor row per keypoint, and every match returned
  by the matcher indexes into the two descriptor arrays it was given.
\<close>

definition indices_in_range :: "cv2 \<Rightarrow> bool" where
  "indices_in_range cv \<longleftrightarrow>
     (\<forall>g kp d. detectAndCompute cv g = (kp, Some d) \<longrightarrow> length kp = length d) \<and>
     (\<forall>pd d. \<forall>m \<in> set (bf_match cv pd d). queryIdx m < length pd \<and> trainIdx m < length d)"

text \<open>
  The previous-frame variables always hold the data of one and the same grey frame.
\<close>

definition prev_consistent :: "cv2 \<Rightarrow> loop_state \<Rightarrow> bool" where
  "prev_consistent cv s \<longleftrightarrow>
     (\<forall>pf. prev_frame s = Some pf \<longrightarrow>
        prev_kp s = Some (fst (detectAndCompute cv pf)) \<and>
        prev_des s = snd (detectAndCompute cv pf))"

text \<open>
  At the head of iteration \<open>idx\<close>: there is a previous frame exactly after the first
  iteration, and one score and one matrix have been stored per earlier transition.
\<close>

definition loop_inv :: "cv2 \<Rightarrow> nat \<Rightarrow> loop_state \<Rightarrow> bool" where
  "loop_inv cv idx s \<longleftrightarrow>
     (prev_frame s = None \<longleftrightarrow> idx = 0) \<and> prev_consistent cv s \<and>
     length (movement_scores s) = idx - 1 \<and> length (transformation_matrices s) = idx - 1"

text \<open>
  At the head of iteration \<open>idx\<close>: the flagged indices ascend strictly, lie in
  \<open>1 .. idx - 1\<close>, and each has a positive score at its transition.
\<close>

definition flags_inv :: "nat \<Rightarrow> loop_state \<Rightarrow> bool" where
  "flags_inv idx s \<longleftrightarrow>
     sorted_wrt (<) (movement_indices s) \<and>
     (\<forall>i \<in> set (movement_indices s). 1 \<le> i \<and> i < idx \<and> 0 < movement_scores s ! (i - 1))"

text \<open>
  The invariant the specification states for a result over \<open>n\<close> frames.
\<close>

definition result_invariant :: "nat \<Rightarrow> detection_result \<Rightarrow> bool" where
  "result_invariant n r \<longleftrightarrow>
     sorted_wrt (<) (movement_indices r) \<and>
     set (movement_indices r) \<subseteq> {1..n - 1} \<and>
     length (movement_scores r) = n - 1 \<and>
     (\<forall>i < length (movement_scores r). 0 \<le> movement_scores r ! i) \<and>
     (\<forall>i \<in> set (movement_indices r). 0 < movement_scores r ! (i - 1))"

text \<open>
  Comparison of two runs that differ in their thresholds only: the second run has flagged at
  least the indices of the first, at least as often.
\<close>

definition more_flags :: "nat list \<Rightarrow> nat list \<Rightarrow> bool" where
  "more_flags fl fl' \<longleftrightarrow> set fl \<subseteq> set fl' \<and> length fl \<le> length fl'"

definition same_run :: "loop_state \<Rightarrow> loop_state \<Rightarrow> bool" where
  "same_run s t \<longleftrightarrow>
     prev_frame t = prev_frame s \<and> prev_kp t = prev_kp s \<and> prev_des t = prev_des s \<and>
     more_flags (movement_indices s) (movement_indices t)"

section \<open>The scores in the words of the specification\<close>

text \<open>
  The per-pair Euclidean displacements of matched points, the weighted decomposition of a
  homography, and the median-plus-variance score of the degenerate path, written as the
  specification states them.
\<close>

definition pair_displacements :: "point list \<Rightarrow> point list \<Rightarrow> real list" where
  "pair_displacements src dst = map2 (\<lambda>p q. point_norm (point_diff q p)) src dst"

definition spec_homography_score :: "homography \<Rightarrow> point list \<Rightarrow> point list \<Rightarrow> real" where
  "spec_homography_score h src dst =
     point_norm (h02 h, h12 h) * 1.5
     + \<bar>arctan2 (h10 h) (h00 h)\<bar> * 30
     + \<bar>1 - (point_norm (h00 h, h10 h) + point_norm (h01 h, h11 h)) / 2\<bar> * 50
     + (\<bar>h20 h\<bar> + \<bar>h21 h\<bar>) * 20
     + 0.1 * (if length (pair_displacements src dst) < 2 then 0
              else np_var (pair_displacements src dst))"

definition spec_degenerate_score :: "point list \<Rightarrow> point list \<Rightarrow> real" where
  "spec_degenerate_score src dst =
     np_median (pair_displacements src dst) + 0.1 * np_var (pair_displacements src dst)"

text \<open>
  For the sparse optical-flow signal: the corners found in the previous frame, the pairs
  (corner, tracked position) whose tracking status is 1, and their displacements.
\<close>

definition detected_corners :: "cv2 \<Rightarrow> image \<Rightarrow> point list" where
  "detected_corners cv prv =
     (case goodFeaturesToTrack cv prv of Some (Some corners) \<Rightarrow> corners | _ \<Rightarrow> [])"

definition tracked_points :: "cv2 \<Rightarrow> image \<Rightarrow> image \<Rightarrow> (point \<times> point) list" where
  "tracked_points cv prv cur =
     (let corners = detected_corners cv prv in
      case calcOpticalFlowPyrLK cv prv cur corners of
        None \<Rightarrow> []
      | Some (next_corners, status) \<Rightarrow>
          (if length corners = length status \<and> length next_corners = length status
           then map fst (filter (\<lambda>p. snd p = 1) (zip (zip corners next_corners) status))
           else []))"

definition tracked_displacements :: "cv2 \<Rightarrow> image \<Rightarrow> image \<Rightarrow> real list" where
  "tracked_displacements cv prv cur =
     map (\<lambda>(p, q). point_norm (point_diff q p)) (tracked_points cv prv cur)"

section \<open>Test fixtures\<close>

text \<open>
  A concrete set of OpenCV routines and a few one-row frames on which the model can be
  evaluated. The first three pixels of a frame choose the number of keypoints and their
  position; the fourth only changes the intensities. Every match has distance 10. The
  homography of the fixture is the identity for unmoved points in the row \<open>y = 0\<close>, a
  perspective skew for points moved by more than 2, and absent otherwise.
\<close>

definition identity_h :: homography where
  "identity_h = \<lparr>h00 = 1, h01 = 0, h02 = 0, h10 = 0, h11 = 1, h12 = 0, h20 = 0, h21 = 0, h22 = 1\<rparr>"

definition skew_h :: homography where
  "skew_h = identity_h\<lparr>h20 := 1 / 2\<rparr>"

definition demo_kps :: "nat \<Rightarrow> nat \<Rightarrow> nat \<Rightarrow> keypoint list" where
  "demo_kps n x y = map (\<lambda>i. \<lparr>pt = (real (x + i), real y)\<rparr>) [0..<n]"

definition demo_des :: "nat \<Rightarrow> descriptors" where
  "demo_des n = map (\<lambda>i. [10 + i]) [0..<n]"

definition demo_detectAndCompute :: "image \<Rightarrow> keypoint list \<times> descriptors option" where
  "demo_detectAndCompute g =
     (case g of
        (n # x # y # _) # _ \<Rightarrow>
          (demo_kps n x y, if n = 0 \<and> x = 0 then None else Some (demo_des n))
      | _ \<Rightarrow> ([], None))"

definition demo_bf_match :: "descriptors \<Rightarrow> descriptors \<Rightarrow> dmatch list" where
  "demo_bf_match pd d =
     map (\<lambda>i. \<lparr>queryIdx = i, trainIdx = i, distance = 10\<rparr>) [0..<min (length pd) (length d)]"

definition demo_findHomography :: "point list \<Rightarrow> point list \<Rightarrow> homography option" where
  "demo_findHomography src dst =
     (case (src, dst) of
        (p # _, q # _) \<Rightarrow>
          (if snd p = 0 \<and> fst q = fst p then Some identity_h
           else if snd p = 0 \<and> fst p + 2 < fst q then Some skew_h
           else None)
      | _ \<Rightarrow> None)"

definition demo_absdiff :: "image \<Rightarrow> image \<Rightarrow> image option" where
  "demo_absdiff a b =
     (if map length a = map length b
      then Some (map2 (map2 (\<lambda>x y. if x \<le> y then y - x else x - y)) a b)
      else None)"

definition demo_threshold :: "image \<Rightarrow> real \<Rightarrow> nat \<Rightarrow> image option" where
  "demo_threshold img t mx = Some (map (map (\<lambda>p. if real p > t then mx else 0)) img)"

definition demo_cv :: cv2 where
  "demo_cv =
     \<lparr>cvtColor = map (map sum_list),
      GaussianBlur = (\<lambda>g. g),
      detectAndCompute = demo_detectAndCompute,
      bf_match = demo_bf_match,
      findHomography = demo_findHomography,
      absdiff = demo_absdiff,
      threshold = demo_threshold,
      goodFeaturesToTrack = (\<lambda>g. Some None),
      calcOpticalFlowPyrLK = (\<lambda>p c corners. None),
      Canny = (\<lambda>g. Some (map (map (\<lambda>p. 0)) g))\<rparr>"

definition default_config :: config where
  "default_config = \<lparr>threshold_feature = 5, threshold_homography = 15, min_match_count = 4\<rparr>"

definition strict_config :: config where
  "strict_config = \<lparr>threshold_feature = 50, threshold_homography = 15, min_match_count = 4\<rparr>"

definition img_still :: image where "img_still = [[4, 0, 0, 0]]"

definition img_lit :: image where "img_lit = [[4, 0, 0, 200]]"

definition img_shift2 :: image where "img_shift2 = [[4, 2, 0, 0]]"

definition img_shift4 :: image where "img_shift4 = [[4, 4, 0, 0]]"

definition img_few :: image where "img_few = [[2, 0, 0, 200]]"

definition img_blank :: image where "img_blank = [[0, 1, 0, 200]]"

definition img_none :: image where "img_none = [[0, 0, 0, 200]]"

definition img_tilt :: image where "img_tilt = [[4, 0, 2, 0]]"

definition img_tilt_lit :: image where "img_tilt_lit = [[4, 0, 2, 200]]"

definition state_after :: "image \<Rightarrow> loop_state" where
  "state_after g =
     \<lparr>movement_indices = [], movement_scores = [], transformation_matrices = [],
      prev_frame = Some g, prev_kp = Some (fst (demo_detectAndCompute g)),
      prev_des = snd (demo_detectAndCompute g)\<rparr>"

definition demo_matches :: "nat \<Rightarrow> dmatch list" where
  "demo_matches n = map (\<lambda>i. \<lparr>queryIdx = i, trainIdx = i, distance = 10\<rparr>) [0..<n]"

definition demo_pts :: "nat \<Rightarrow> nat \<Rightarrow> point list" where
  "demo_pts x y = map (\<lambda>i. (real (x + i), real y)) [0..<4]"

text \<open>
  A corner detector that finds \<open>n\<close> corners on a line and a tracker that moves every
  corner by one pixel and reports the corners left of \<open>x = 7\<close> as tracked.
\<close>

definition flow_corners :: "nat \<Rightarrow> point list" where
  "flow_corners n = map (\<lambda>i. (real i, 0)) [0..<n]"

definition flow_cv :: "nat \<Rightarrow> cv2" where
  "flow_cv n =
     demo_cv\<lparr>goodFeaturesToTrack := (\<lambda>g. Some (Some (flow_corners n))),
             calcOpticalFlowPyrLK :=
               (\<lambda>p c corners. Some (map (\<lambda>q. (fst q + 1, snd q)) corners,
                                      map (\<lambda>q. if fst q < 7 then 1 else 0) corners))\<rparr>"

section \<open>Non-negativity of every score\<close>

lemma np_mean_nonneg: "(\<And>x. x \<in> set xs \<Longrightarrow> 0 \<le> x) \<Longrightarrow> 0 \<le> np_mean xs"
  unfolding np_mean_def by (simp add: sum_list_nonneg)

lemma np_var_nonneg: "0 \<le> np_var xs"
  unfolding np_var_def by (rule np_mean_nonneg) auto

lemma point_norm_nonneg: "0 \<le> point_norm p"
  unfolding point_norm_def by simp

lemma np_median_nonneg:
  assumes "\<And>x. x \<in> set xs \<Longrightarrow> 0 \<le> x"
  shows "0 \<le> np_median xs"
proof -
  have nth: "0 \<le> sort xs ! i" if "i < length xs" for i
  proof -
    have "sort xs ! i \<in> set (sort xs)" using that by (intro nth_mem) simp
    then show ?thesis using assms by simp
  qed
  show ?thesis
  proof (cases "xs = []")
    case True
    then show ?thesis by (simp add: np_median_def)
  next
    case False
    then have "0 < length xs" by simp
    then have "length xs div 2 < length xs" "length xs div 2 - 1 < length xs"
      by (simp_all add: less_imp_diff_less)
    then show ?thesis using nth by (auto simp: np_median_def Let_def intro!: add_nonneg_nonneg)
  qed
qed

lemma calculate_movement_score_nonneg: "0 \<le> calculate_movement_score H src dst"
  unfolding calculate_movement_score_def Let_def
  by (auto split: option.splits
      intro!: add_nonneg_nonneg mult_nonneg_nonneg np_var_nonneg np_median_nonneg point_norm_nonneg)

lemma frame_difference_score_nonneg: "0 \<le> calculate_frame_difference_score cv prv cur"
  unfolding calculate_frame_difference_score_def Let_def
  by (auto split: option.splits intro!: add_nonneg_nonneg mult_nonneg_nonneg np_mean_nonneg)

lemma optical_flow_score_nonneg: "0 \<le> calculate_optical_flow_score cv prv cur"
  unfolding calculate_optical_flow_score_def
  by (auto split: option.splits intro!: mult_nonneg_nonneg np_median_nonneg point_norm_nonneg)

lemma edge_motion_score_nonneg: "0 \<le> calculate_edge_motion_score cv prv cur"
  unfolding calculate_edge_motion_score_def
  by (auto split: option.splits intro!: mult_nonneg_nonneg np_mean_nonneg)

lemma fallback_score_eq:
  "fallback_score cv pf gray =
     max (calculate_frame_difference_score cv pf gray)
       (max (calculate_optical_flow_score cv pf gray) (calculate_edge_motion_score cv pf gray))"
  unfolding fallback_score_def by simp

lemma fallback_score_nonneg: "0 \<le> fallback_score cv pf gray"
  unfolding fallback_score_def
  using frame_difference_score_nonneg [of cv pf gray] by (simp add: max_def)

section \<open>The blocks of one transition\<close>

lemma gather_pts_in_range:
  "\<forall>i \<in> set is. i < length ks \<Longrightarrow> gather_pts (Some ks) is = Inr (map (\<lambda>i. pt (ks ! i)) is)"
  by (induction "is") auto

lemma gather_pts_length: "gather_pts kps is = Inr ps \<Longrightarrow> length ps = length is"
  by (induction "is" arbitrary: ps) (auto split: option.splits if_splits sum.splits)

lemma good_matches_subset: "set (good_matches_of cv pd d) \<subseteq> set (bf_match cv pd d)"
proof -
  have "set (filter P (sort_key distance (bf_match cv pd d))) \<subseteq> set (bf_match cv pd d)" for P
    by auto
  then show ?thesis
    unfolding good_matches_of_def Let_def by (auto split: list.splits)
qed

lemma homography_block_returns:
  assumes "\<forall>m \<in> set good. queryIdx m < length pk \<and> trainIdx m < length kp"
  shows "\<exists>r. homography_block cv cfg idx (Some pk) kp good = Inr r"
proof -
  have "gather_pts (Some pk) (map queryIdx good) = Inr (map (\<lambda>i. pt (pk ! i)) (map queryIdx good))"
    using assms by (intro gather_pts_in_range) auto
  moreover have "gather_pts (Some kp) (map trainIdx good) = Inr (map (\<lambda>i. pt (kp ! i)) (map trainIdx good))"
    using assms by (intro gather_pts_in_range) auto
  ultimately show ?thesis
    unfolding homography_block_def Let_def by (simp split: option.splits)
qed

lemma homography_block_result:
  assumes "homography_block cv cfg idx pkp kp good = Inr (fl, ms, H)"
  shows "0 \<le> ms" and "fl = [] \<or> fl = [idx]"
    and "fl \<noteq> [] \<Longrightarrow> min_match_count cfg \<le> int (length good) \<and>
           (threshold_homography cfg < ms \<or> threshold_homography cfg * 0.5 < ms)"
  using assms calculate_movement_score_nonneg
  unfolding homography_block_def Let_def
  by (auto split: if_splits sum.splits option.splits)

lemma fallback_block_result:
  assumes "fallback_block cv cfg idx pf gray good (fl, ms, H) = (fl', ms', H')" and "0 \<le> ms"
  shows "0 \<le> ms'" and "H' = H" and "fl' = fl \<or> fl' = fl @ [idx]"
  using assms fallback_score_nonneg [of cv pf gray]
  unfolding fallback_block_def Let_def
  by (auto split: if_splits)

lemma transition_block_returns:
  assumes "\<forall>m \<in> set (bf_match cv pd d). queryIdx m < length pk \<and> trainIdx m < length kp"
  shows "\<exists>r. transition_block cv cfg idx pf (Some pk) pd gray kp d = Inr r"
proof -
  have "\<forall>m \<in> set (good_matches_of cv pd d). queryIdx m < length pk \<and> trainIdx m < length kp"
    using assms good_matches_subset [of cv pd d] by blast
  from homography_block_returns [OF this]
  obtain r where "homography_block cv cfg idx (Some pk) kp (good_matches_of cv pd d) = Inr r"
    by blast
  then show ?thesis
    unfolding transition_block_def Let_def by (simp del: split_paired_Ex)
qed

lemma transition_block_nonneg:
  assumes "transition_block cv cfg idx pf pkp pd gray kp d = Inr (fl, ms, H)"
  shows "0 \<le> ms"
proof -
  obtain fl0 ms0 H0 where
    hb: "homography_block cv cfg idx pkp kp (good_matches_of cv pd d) = Inr (fl0, ms0, H0)"
    and fb: "fallback_block cv cfg idx pf gray (good_matches_of cv pd d) (fl0, ms0, H0) = (fl, ms, H)"
    using assms unfolding transition_block_def Let_def
    by (auto split: sum.splits)
  from homography_block_result(1) [OF hb] fallback_block_result(1) [OF fb]
  show ?thesis by simp
qed

lemma transition_block_flags:
  assumes "transition_block cv cfg idx pf pkp pd gray kp d = Inr (fl, ms, H)"
  shows "set fl \<subseteq> {idx}"
proof -
  obtain fl0 ms0 H0 where
    hb: "homography_block cv cfg idx pkp kp (good_matches_of cv pd d) = Inr (fl0, ms0, H0)"
    and fb: "fallback_block cv cfg idx pf gray (good_matches_of cv pd d) (fl0, ms0, H0) = (fl, ms, H)"
    using assms unfolding transition_block_def Let_def
    by (auto split: sum.splits)
  from homography_block_result(1,2) [OF hb] fallback_block_result(3) [OF fb]
  show ?thesis by auto
qed

lemma transition_block_flag_once:
  assumes "transition_block cv cfg idx pf pkp pd gray kp d = Inr (fl, ms, H)"
    and "0 \<le> threshold_feature cfg" and "0 \<le> threshold_homography cfg"
  shows "fl = [] \<or> (fl = [idx] \<and> 0 < ms)"
proof -
  let ?good = "good_matches_of cv pd d"
  obtain fl0 ms0 H0 where
    hb: "homography_block cv cfg idx pkp kp ?good = Inr (fl0, ms0, H0)"
    and fb: "fallback_block cv cfg idx pf gray ?good (fl0, ms0, H0) = (fl, ms, H)"
    using assms(1) unfolding transition_block_def Let_def
    by (auto split: sum.splits)
  show ?thesis
  proof (cases "fl0 = []")
    case True
    then show ?thesis
      using fb assms(2) unfolding fallback_block_def Let_def
      by (auto split: if_splits)
  next
    case False
    with homography_block_result(2,3) [OF hb]
    have "fl0 = [idx]" and "min_match_count cfg \<le> int (length ?good)"
      and "threshold_homography cfg < ms0 \<or> threshold_homography cfg * 0.5 < ms0"
      by auto
    moreover from this assms(3) have "0 < ms0"
      by auto
    ultimately show ?thesis
      using fb unfolding fallback_block_def by auto
  qed
qed

section \<open>The loop\<close>

text \<open>
  The transition into the last frame of a sequence is one \<open>detect_step\<close> from the
  state reached on the frames before it; the theorems about single transitions below are
  stated for \<open>detect_step\<close>.
\<close>

lemma detect_loop_snoc:
  "detect_loop cv cfg idx (frs @ [fr]) s =
     (case detect_loop cv cfg idx frs s of
        Inl e \<Rightarrow> Inl e
      | Inr s' \<Rightarrow> detect_step cv cfg (idx + length frs) fr s')"
  by (induction frs arbitrary: idx s) (auto split: sum.splits)

lemma detect_step_prev:
  assumes "detect_step cv cfg idx fr s = Inr s'"
  shows "prev_frame s' = Some (to_gray cv fr)" and "prev_consistent cv s'"
  using assms
  unfolding detect_step_def Let_def rotate_prev_def record_transition_def prev_consistent_def
  by (auto split: prod.splits option.splits if_splits sum.splits)

lemma detect_step_lengths:
  assumes "detect_step cv cfg idx fr s = Inr s'" and "prev_frame s = None \<longleftrightarrow> idx = 0"
  shows "length (movement_scores s') = length (movement_scores s) + (if idx = 0 then 0 else 1)"
    and "length (transformation_matrices s')
           = length (transformation_matrices s) + (if idx = 0 then 0 else 1)"
  using assms
  unfolding detect_step_def Let_def rotate_prev_def record_transition_def
  by (auto split: prod.splits option.splits if_splits sum.splits)

lemma detect_step_returns:
  assumes "indices_in_range cv" and "prev_consistent cv s"
  shows "\<exists>s'. detect_step cv cfg idx fr s = Inr s'"
proof -
  obtain kp des where dac: "detectAndCompute cv (to_gray cv fr) = (kp, des)"
    by (cases "detectAndCompute cv (to_gray cv fr)")
  show ?thesis
  proof (cases "\<exists>pf pd d. prev_frame s = Some pf \<and> prev_des s = Some pd \<and> des = Some d
                  \<and> pd \<noteq> [] \<and> d \<noteq> []")
    case True
    then obtain pf pd d where st: "prev_frame s = Some pf" "prev_des s = Some pd" "des = Some d"
        "pd \<noteq> []" "d \<noteq> []"
      by blast
    obtain pk where pk: "prev_kp s = Some pk" "detectAndCompute cv pf = (pk, Some pd)"
      using assms(2) st(1,2) unfolding prev_consistent_def
      by (cases "detectAndCompute cv pf") auto
    have "length pk = length pd" "length kp = length d"
      using assms(1) pk(2) dac st(3) unfolding indices_in_range_def by blast+
    then have "\<forall>m \<in> set (bf_match cv pd d). queryIdx m < length pk \<and> trainIdx m < length kp"
      using assms(1) unfolding indices_in_range_def by simp
    from transition_block_returns [OF this]
    obtain r where "transition_block cv cfg idx pf (Some pk) pd (to_gray cv fr) kp d = Inr r"
      by blast
    then show ?thesis
      unfolding detect_step_def Let_def using dac st pk(1)
      by (cases r) simp
  next
    case False
    then show ?thesis
      unfolding detect_step_def Let_def using dac
      by (auto split: option.splits)
  qed
qed

lemma detect_step_inv:
  assumes "detect_step cv cfg idx fr s = Inr s'" and "loop_inv cv idx s"
  shows "loop_inv cv (Suc idx) s'"
  using detect_step_prev [OF assms(1)] detect_step_lengths [OF assms(1)] assms(2)
  unfolding loop_inv_def by (auto split: if_splits)

lemma detect_loop_returns:
  assumes "indices_in_range cv" and "loop_inv cv idx s"
  shows "\<exists>s'. detect_loop cv cfg idx frs s = Inr s' \<and> loop_inv cv (idx + length frs) s'"
  using assms(2)
proof (induction frs arbitrary: idx s)
  case Nil
  then show ?case by simp
next
  case (Cons fr frs)
  from detect_step_returns [OF assms(1)] Cons.prems
  obtain s1 where s1: "detect_step cv cfg idx fr s = Inr s1"
    unfolding loop_inv_def by blast
  from Cons.IH [OF detect_step_inv [OF s1 Cons.prems]] s1
  show ?case by simp
qed

lemma initial_inv: "loop_inv cv 0 initial_state"
  unfolding loop_inv_def prev_consistent_def initial_state_def by simp

lemma detect_step_nonneg:
  assumes "detect_step cv cfg idx fr s = Inr s'" and "\<forall>x \<in> set (movement_scores s). 0 \<le> x"
  shows "\<forall>x \<in> set (movement_scores s'). 0 \<le> x"
  using assms transition_block_nonneg
  unfolding detect_step_def Let_def rotate_prev_def record_transition_def
  by (fastforce split: prod.splits option.splits if_splits sum.splits)

lemma detect_loop_nonneg:
  assumes "detect_loop cv cfg idx frs s = Inr s'" and "\<forall>x \<in> set (movement_scores s). 0 \<le> x"
  shows "\<forall>x \<in> set (movement_scores s'). 0 \<le> x"
  using assms
proof (induction frs arbitrary: idx s)
  case Nil
  then show ?case by simp
next
  case (Cons fr frs)
  then obtain s1 where s1: "detect_step cv cfg idx fr s = Inr s1"
    and rest: "detect_loop cv cfg (Suc idx) frs s1 = Inr s'"
    by (auto split: sum.splits)
  from Cons.IH [OF rest detect_step_nonneg [OF s1 Cons.prems(2)]]
  show ?case .
qed

lemma detect_step_flags:
  assumes step: "detect_step cv cfg idx fr s = Inr s'"
    and inv: "loop_inv cv idx s" "flags_inv idx s"
    and thr: "0 \<le> threshold_feature cfg" "0 \<le> threshold_homography cfg"
  shows "flags_inv (Suc idx) s'"
proof -
  have len: "length (movement_scores s) = idx - 1" and first: "prev_frame s = None \<longleftrightarrow> idx = 0"
    using inv(1) unfolding loop_inv_def by auto
  have old: "\<forall>i \<in> set (movement_indices s). 1 \<le> i \<and> i < idx \<and> 0 < movement_scores s ! (i - 1)"
    and srt: "sorted_wrt (<) (movement_indices s)"
    using inv(2) unfolding flags_inv_def by auto
  obtain fl sc hs where
    mi: "movement_indices s' = movement_indices s @ fl"
    and ms: "movement_scores s' = movement_scores s @ sc"
    and fl: "fl = [] \<or> (fl = [idx] \<and> 0 < idx \<and> (\<exists>x. sc = [x] \<and> 0 < x))"
  proof -
    have "\<exists>fl sc. movement_indices s' = movement_indices s @ fl \<and>
            movement_scores s' = movement_scores s @ sc \<and>
            (fl = [] \<or> (fl = [idx] \<and> 0 < idx \<and> (\<exists>x. sc = [x] \<and> 0 < x)))"
      using step first transition_block_flag_once [OF _ thr]
      unfolding detect_step_def Let_def rotate_prev_def record_transition_def
      by (fastforce split: prod.splits option.splits if_splits sum.splits)
    then show ?thesis using that by blast
  qed
  have kept: "movement_scores s' ! (i - 1) = movement_scores s ! (i - 1)"
    if "i \<in> set (movement_indices s)" for i
    using old that len ms by (auto simp: nth_append)
  show ?thesis
  proof (cases "fl = []")
    case True
    then show ?thesis
      using old srt mi kept unfolding flags_inv_def by auto
  next
    case False
    with fl obtain x where new: "fl = [idx]" "0 < idx" "sc = [x]" "0 < x"
      by blast
    have "movement_scores s' ! (idx - 1) = x"
      using ms new(3) len by (simp add: nth_append)
    then show ?thesis
      using old srt mi kept new unfolding flags_inv_def
      by (auto simp: sorted_wrt_append)
  qed
qed

lemma detect_loop_flags:
  assumes "detect_loop cv cfg idx frs s = Inr s'"
    and "loop_inv cv idx s" "flags_inv idx s"
    and thr: "0 \<le> threshold_feature cfg" "0 \<le> threshold_homography cfg"
  shows "flags_inv (idx + length frs) s'"
  using assms(1-3)
proof (induction frs arbitrary: idx s)
  case Nil
  then show ?case by simp
next
  case (Cons fr frs)
  then obtain s1 where s1: "detect_step cv cfg idx fr s = Inr s1"
    and rest: "detect_loop cv cfg (Suc idx) frs s1 = Inr s'"
    by (auto split: sum.splits)
  from Cons.IH [OF rest detect_step_inv [OF s1 Cons.prems(2)]
      detect_step_flags [OF s1 Cons.prems(2,3) thr]]
  show ?case by simp
qed

section \<open>Two runs with different thresholds\<close>

lemma more_flags_append:
  "more_flags a a' \<Longrightarrow> more_flags b b' \<Longrightarrow> more_flags (a @ b) (a' @ b')"
  unfolding more_flags_def by auto

lemma more_flags_refl: "more_flags a a"
  unfolding more_flags_def by simp

lemma homography_block_mono:
  assumes "homography_block cv cfg idx pkp kp good = Inr (fl, ms, H)"
    and "threshold_homography cfg' \<le> threshold_homography cfg"
    and "min_match_count cfg' = min_match_count cfg"
  shows "\<exists>fl'. homography_block cv cfg' idx pkp kp good = Inr (fl', ms, H) \<and> more_flags fl fl'"
  using assms
  unfolding homography_block_def Let_def more_flags_def
  by (auto split: if_splits sum.splits option.splits)

lemma fallback_block_mono:
  assumes "fallback_block cv cfg idx pf gray good (fl, ms, H) = (a, b, c)"
    and "more_flags fl fl'"
    and "threshold_feature cfg' \<le> threshold_feature cfg"
    and "min_match_count cfg' = min_match_count cfg"
  shows "\<exists>a'. fallback_block cv cfg' idx pf gray good (fl', ms, H) = (a', b, c) \<and> more_flags a a'"
  using assms
  unfolding fallback_block_def Let_def more_flags_def
  by (auto split: if_splits)

lemma transition_block_mono:
  assumes "transition_block cv cfg idx pf pkp pd gray kp d = Inr (fl, ms, H)"
    and "threshold_feature cfg' \<le> threshold_feature cfg"
    and "threshold_homography cfg' \<le> threshold_homography cfg"
    and "min_match_count cfg' = min_match_count cfg"
  shows "\<exists>fl'. transition_block cv cfg' idx pf pkp pd gray kp d = Inr (fl', ms, H)
           \<and> more_flags fl fl'"
proof -
  let ?good = "good_matches_of cv pd d"
  obtain fl0 ms0 H0 where
    hb: "homography_block cv cfg idx pkp kp ?good = Inr (fl0, ms0, H0)"
    and fb: "fallback_block cv cfg idx pf gray ?good (fl0, ms0, H0) = (fl, ms, H)"
    using assms(1) unfolding transition_block_def Let_def
    by (auto split: sum.splits)
  from homography_block_mono [OF hb assms(3,4)]
  obtain fl1 where hb': "homography_block cv cfg' idx pkp kp ?good = Inr (fl1, ms0, H0)"
    and m1: "more_flags fl0 fl1"
    by blast
  from fallback_block_mono [OF fb m1 assms(2,4)]
  obtain fl2 where "fallback_block cv cfg' idx pf gray ?good (fl1, ms0, H0) = (fl2, ms, H)"
    and "more_flags fl fl2"
    by blast
  then show ?thesis
    using hb' unfolding transition_block_def Let_def by simp
qed

lemma detect_step_mono:
  assumes "detect_step cv cfg idx fr s = Inr s'" and "same_run s t"
    and "threshold_feature cfg' \<le> threshold_feature cfg"
    and "threshold_homography cfg' \<le> threshold_homography cfg"
    and "min_match_count cfg' = min_match_count cfg"
  shows "\<exists>t'. detect_step cv cfg' idx fr t = Inr t' \<and> same_run s' t'"
proof -
  obtain kp des where dac: "detectAndCompute cv (to_gray cv fr) = (kp, des)"
    by (cases "detectAndCompute cv (to_gray cv fr)")
  have eq: "prev_frame t = prev_frame s" "prev_kp t = prev_kp s" "prev_des t = prev_des s"
    and mf: "more_flags (movement_indices s) (movement_indices t)"
    using assms(2) unfolding same_run_def by auto
  show ?thesis
  proof (cases "\<exists>pf pd d. prev_frame s = Some pf \<and> prev_des s = Some pd \<and> des = Some d
                  \<and> pd \<noteq> [] \<and> d \<noteq> []")
    case True
    then obtain pf pd d where st: "prev_frame s = Some pf" "prev_des s = Some pd" "des = Some d"
        "pd \<noteq> []" "d \<noteq> []"
      by blast
    obtain fl ms H where
      tb: "transition_block cv cfg idx pf (prev_kp s) pd (to_gray cv fr) kp d = Inr (fl, ms, H)"
      and s': "s' = rotate_prev (to_gray cv fr) kp des (record_transition fl ms H s)"
      using assms(1) dac st unfolding detect_step_def Let_def
      by (auto split: sum.splits)
    from transition_block_mono [OF tb assms(3-5)]
    obtain fl' where
      tb': "transition_block cv cfg' idx pf (prev_kp s) pd (to_gray cv fr) kp d = Inr (fl', ms, H)"
      and m: "more_flags fl fl'"
      by blast
    have "detect_step cv cfg' idx fr t
            = Inr (rotate_prev (to_gray cv fr) kp des (record_transition fl' ms H t))"
      using tb' dac st eq unfolding detect_step_def Let_def by simp
    moreover have "same_run s' (rotate_prev (to_gray cv fr) kp des (record_transition fl' ms H t))"
      using s' more_flags_append [OF mf m]
      unfolding same_run_def rotate_prev_def record_transition_def by simp
    ultimately show ?thesis by blast
  next
    case False
    then show ?thesis
      using assms(1) dac eq mf
      unfolding detect_step_def Let_def same_run_def rotate_prev_def record_transition_def
      by (auto split: option.splits if_splits)
  qed
qed

lemma detect_loop_mono:
  assumes "detect_loop cv cfg idx frs s = Inr s'" and "same_run s t"
    and thr: "threshold_feature cfg' \<le> threshold_feature cfg"
      "threshold_homography cfg' \<le> threshold_homography cfg"
      "min_match_count cfg' = min_match_count cfg"
  shows "\<exists>t'. detect_loop cv cfg' idx frs t = Inr t' \<and> same_run s' t'"
  using assms(1,2)
proof (induction frs arbitrary: idx s t)
  case Nil
  then show ?case by simp
next
  case (Cons fr frs)
  then obtain s1 where s1: "detect_step cv cfg idx fr s = Inr s1"
    and rest: "detect_loop cv cfg (Suc idx) frs s1 = Inr s'"
    by (auto split: sum.splits)
  from detect_step_mono [OF s1 Cons.prems(2) thr]
  obtain t1 where t1: "detect_step cv cfg' idx fr t = Inr t1" and r1: "same_run s1 t1"
    by blast
  from Cons.IH [OF rest r1] t1
  show ?case by simp
qed

section \<open>The code's scores and the specification's formulas\<close>

lemma np_sub_rows_same_length:
  "length dst = length src \<Longrightarrow>
     np_sub_rows dst src = Some (map2 point_diff dst src) \<and>
     map point_norm (map2 point_diff dst src) = pair_displacements src dst"
proof -
  have "map point_norm (map2 point_diff dst src) = pair_displacements src dst"
    unfolding pair_displacements_def
    by (subst zip_commute) (simp add: case_prod_unfold comp_def)
  then show "length dst = length src \<Longrightarrow> ?thesis"
    unfolding np_sub_rows_def by simp
qed

lemma calculate_movement_score_homography:
  assumes "length src = length dst"
  shows "calculate_movement_score (Some h) src dst = spec_homography_score h src dst"
proof (cases "src = []")
  case True
  then show ?thesis
    using assms
    by (simp add: calculate_movement_score_def spec_homography_score_def pair_displacements_def
        point_norm_def)
next
  case False
  have len: "length (pair_displacements src dst) = length src"
    using assms unfolding pair_displacements_def by simp
  show ?thesis
    using False assms np_sub_rows_same_length [of dst src] len
    by (auto simp: calculate_movement_score_def spec_homography_score_def Let_def point_norm_def)
qed

lemma calculate_movement_score_degenerate:
  assumes "length src = length dst"
  shows "calculate_movement_score None src dst = spec_degenerate_score src dst"
proof (cases "src = []")
  case True
  then show ?thesis
    using assms
    by (simp add: calculate_movement_score_def spec_degenerate_score_def pair_displacements_def
        np_median_def np_var_def np_mean_def)
next
  case False
  then show ?thesis
    using assms np_sub_rows_same_length [of dst src]
    by (auto simp: calculate_movement_score_def spec_degenerate_score_def Let_def)
qed

lemma detect_step_compare:
  assumes "prev_frame s = Some pf" and "prev_des s = Some pd"
    and "detectAndCompute cv (to_gray cv fr) = (kp, Some d)"
    and "pd \<noteq> []" and "d \<noteq> []"
    and "transition_block cv cfg idx pf (prev_kp s) pd (to_gray cv fr) kp d = Inr (fl, ms, H)"
  shows "detect_step cv cfg idx fr s
           = Inr (rotate_prev (to_gray cv fr) kp (Some d) (record_transition fl ms H s))"
  using assms unfolding detect_step_def Let_def by simp

lemma mask_select_pairs_aux:
  assumes "length cs = length nx" and "length nx = length st"
  shows "map fst (filter (\<lambda>p. snd p = 1) (zip cs st))
           = map fst (map fst (filter (\<lambda>p. snd p = (1::nat)) (zip (zip cs nx) st)))
         \<and> map fst (filter (\<lambda>p. snd p = 1) (zip nx st))
           = map snd (map fst (filter (\<lambda>p. snd p = (1::nat)) (zip (zip cs nx) st)))"
  using assms by (induction cs nx st rule: list_induct3) auto

lemma mask_select_pairs:
  assumes "length cs = length st" and "length nx = length st"
  shows "map fst (filter (\<lambda>p. snd p = 1) (zip cs st))
           = map fst (map fst (filter (\<lambda>p. snd p = (1::nat)) (zip (zip cs nx) st)))"
    and "map fst (filter (\<lambda>p. snd p = 1) (zip nx st))
           = map snd (map fst (filter (\<lambda>p. snd p = (1::nat)) (zip (zip cs nx) st)))"
  using mask_select_pairs_aux [of cs nx st] assms by simp_all

lemma np_sub_rows_pairs:
  "np_sub_rows (map snd tp) (map fst tp) = Some (map (\<lambda>(p, q). point_diff q p) tp)"
  unfolding np_sub_rows_def by (induction tp) auto

lemma optical_flow_score_tracked:
  assumes "goodFeaturesToTrack cv prv = Some (Some corners)" and "10 < length corners"
    and "calcOpticalFlowPyrLK cv prv cur corners = Some (nx, st)"
    and "length corners = length st" and "length nx = length st"
  shows "calculate_optical_flow_score cv prv cur =
           (if 6 \<le> length (tracked_points cv prv cur)
            then np_median (tracked_displacements cv prv cur) * 3 else 0)"
proof -
  let ?tp = "map fst (filter (\<lambda>p. snd p = (1::nat)) (zip (zip corners nx) st))"
  have tp: "tracked_points cv prv cur = ?tp"
    using assms unfolding tracked_points_def detected_corners_def Let_def by simp
  have old: "mask_select corners st = Some (map fst ?tp)"
    and new: "mask_select nx st = Some (map snd ?tp)"
    using mask_select_pairs [OF assms(4,5)] assms(4,5) unfolding mask_select_def by simp_all
  have "map point_norm (map (\<lambda>(p, q). point_diff q p) ?tp)
          = map (\<lambda>(p, q). point_norm (point_diff q p)) ?tp"
    by (simp add: case_prod_unfold comp_def)
  then show ?thesis
    using assms(1-3) old new np_sub_rows_pairs [of ?tp] tp
    unfolding calculate_optical_flow_score_def tracked_displacements_def
    by (simp del: map_map)
qed

section \<open>Evaluation of the fixtures\<close>

lemma demo_in_range: "indices_in_range demo_cv"
  unfolding indices_in_range_def demo_cv_def demo_detectAndCompute_def demo_bf_match_def
    demo_kps_def demo_des_def
  by (auto split: list.splits if_splits)

lemma demo_to_gray: "to_gray demo_cv (Plane g) = g"
  by (simp add: to_gray_def demo_cv_def)

lemma demo_dac_eq: "detectAndCompute demo_cv = demo_detectAndCompute"
  by (simp add: demo_cv_def)

lemma demo_dac:
  "detectAndCompute demo_cv img_still = (demo_kps 4 0 0, Some (demo_des 4))"
  "detectAndCompute demo_cv img_lit = (demo_kps 4 0 0, Some (demo_des 4))"
  "detectAndCompute demo_cv img_shift2 = (demo_kps 4 2 0, Some (demo_des 4))"
  "detectAndCompute demo_cv img_shift4 = (demo_kps 4 4 0, Some (demo_des 4))"
  "detectAndCompute demo_cv img_few = (demo_kps 2 0 0, Some (demo_des 2))"
  "detectAndCompute demo_cv img_blank = ([], Some [])"
  "detectAndCompute demo_cv img_none = ([], None)"
  "detectAndCompute demo_cv img_tilt = (demo_kps 4 0 2, Some (demo_des 4))"
  "detectAndCompute demo_cv img_tilt_lit = (demo_kps 4 0 2, Some (demo_des 4))"
  by (simp_all add: demo_cv_def demo_detectAndCompute_def img_still_def img_lit_def img_shift2_def
      img_shift4_def img_few_def img_blank_def img_none_def img_tilt_def img_tilt_lit_def demo_kps_def demo_des_def)

lemma demo_des_nonempty: "demo_des 4 \<noteq> []" "demo_des 2 \<noteq> []"
  by (simp_all add: demo_des_def upt_rec)

lemma demo_good:
  "good_matches_of demo_cv (demo_des 4) (demo_des 4) = demo_matches 4"
  "good_matches_of demo_cv (demo_des 4) (demo_des 2) = demo_matches 2"
  by (simp_all add: good_matches_of_def demo_cv_def demo_bf_match_def demo_des_def demo_matches_def
      upt_rec)

lemma demo_matches_length: "length (demo_matches n) = n"
  by (simp add: demo_matches_def)

lemma demo_gather:
  "gather_pts (Some (demo_kps 4 x y)) (map queryIdx (demo_matches 4)) = Inr (demo_pts x y)"
  "gather_pts (Some (demo_kps 4 x y)) (map trainIdx (demo_matches 4)) = Inr (demo_pts x y)"
  by (simp_all add: demo_kps_def demo_matches_def demo_pts_def upt_rec)

lemma demo_homography:
  "findHomography demo_cv (demo_pts 0 0) (demo_pts 0 0) = Some identity_h"
  "findHomography demo_cv (demo_pts 0 0) (demo_pts 2 0) = None"
  "findHomography demo_cv (demo_pts 0 0) (demo_pts 4 0) = Some skew_h"
  "findHomography demo_cv (demo_pts 0 2) (demo_pts 0 2) = None"
  by (simp_all add: demo_cv_def demo_findHomography_def demo_pts_def upt_rec)

lemma demo_scores:
  "spec_homography_score identity_h (demo_pts 0 0) (demo_pts 0 0) = 0"
  "spec_homography_score skew_h (demo_pts 0 0) (demo_pts 4 0) = 10"
  "spec_degenerate_score (demo_pts 0 0) (demo_pts 2 0) = 2"
  "spec_degenerate_score (demo_pts 0 2) (demo_pts 0 2) = 0"
  by (simp_all add: spec_homography_score_def spec_degenerate_score_def pair_displacements_def
      identity_h_def skew_h_def demo_pts_def upt_rec point_norm_def point_diff_def arctan2_def
      np_var_def np_mean_def np_median_def real_sqrt_four)

lemmas demo_fallback_defs = fallback_score_eq calculate_frame_difference_score_def
  calculate_optical_flow_score_def calculate_edge_motion_score_def demo_cv_def demo_absdiff_def
  demo_threshold_def np_mean_def

lemma demo_fallback:
  "fallback_score demo_cv img_still img_still = 0"
  "fallback_score demo_cv img_still img_lit = 30"
  "fallback_score demo_cv img_still img_few = 601 / 20"
  "fallback_score demo_cv img_still img_blank = 241 / 8"
  "fallback_score demo_cv img_still img_none = 301 / 10"
  "fallback_score demo_cv img_tilt img_tilt_lit = 30"
  by (simp_all add: demo_fallback_defs img_still_def img_lit_def img_few_def img_blank_def img_none_def
      img_tilt_def img_tilt_lit_def)

lemma state_after_fields:
  "prev_frame (state_after g) = Some g"
  "prev_kp (state_after g) = Some (fst (detectAndCompute demo_cv g))"
  "prev_des (state_after g) = snd (detectAndCompute demo_cv g)"
  by (simp_all add: state_after_def demo_cv_def)

lemma state_after_still:
  "prev_frame (state_after img_still) = Some img_still"
  "prev_des (state_after img_still) = Some (demo_des 4)"
  "prev_kp (state_after img_still) = Some (demo_kps 4 0 0)"
  by (simp_all add: state_after_fields demo_dac)

lemma demo_first_frame:
  "detect_step demo_cv cfg 0 (Plane g) initial_state = Inr (state_after g)"
  by (simp add: detect_step_def Let_def demo_to_gray demo_dac_eq initial_state_def state_after_def
      rotate_prev_def split: prod.splits)

lemma state_after_reached:
  "detect_loop demo_cv cfg 0 [Plane g] initial_state = Inr (state_after g)"
  by (simp add: demo_first_frame)

lemma demo_hom_eq:
  "calculate_movement_score (Some h) (demo_pts x y) (demo_pts x' y')
     = spec_homography_score h (demo_pts x y) (demo_pts x' y')"
  "calculate_movement_score None (demo_pts x y) (demo_pts x' y')
     = spec_degenerate_score (demo_pts x y) (demo_pts x' y')"
  by (simp_all add: calculate_movement_score_homography calculate_movement_score_degenerate
      demo_pts_def)

lemma demo_score_identity_still:
  "calculate_movement_score (Some identity_h) (demo_pts 0 0) (demo_pts 0 0) = 0"
  by (simp add: demo_hom_eq demo_scores)

lemmas demo_eval = detect_def detect_step_def transition_block_def homography_block_def
  fallback_block_def rotate_prev_def record_transition_def Let_def demo_to_gray demo_dac
  demo_des_nonempty demo_good demo_matches_length demo_gather demo_homography demo_hom_eq
  demo_scores demo_fallback initial_state_def

lemma demo_run_lit:
  "detect demo_cv default_config [Plane img_still, Plane img_lit] =
     Inr \<lparr>movement_indices = [1], movement_scores = [30],
          transformation_matrices = [Some identity_h]\<rparr>"
  by (simp add: demo_eval default_config_def)

lemma demo_run_strict:
  "detect demo_cv strict_config [Plane img_still, Plane img_lit] =
     Inr \<lparr>movement_indices = [], movement_scores = [30],
          transformation_matrices = [Some identity_h]\<rparr>"
  by (simp add: demo_eval strict_config_def)

lemma demo_run_blank:
  "detect demo_cv default_config [Plane img_still, Plane img_blank] =
     Inr \<lparr>movement_indices = [], movement_scores = [0],
          transformation_matrices = [None]\<rparr>"
  by (simp add: demo_eval default_config_def)

lemma demo_run_none:
  "detect demo_cv default_config [Plane img_still, Plane img_none] =
     Inr \<lparr>movement_indices = [], movement_scores = [0],
          transformation_matrices = [None]\<rparr>"
  by (simp add: demo_eval default_config_def)

lemma demo_run_tilt:
  "detect demo_cv default_config [Plane img_tilt, Plane img_tilt_lit] =
     Inr \<lparr>movement_indices = [1], movement_scores = [30],
          transformation_matrices = [None]\<rparr>"
  by (simp add: demo_eval default_config_def)

lemma demo_run_negative_homography:
  "detect demo_cv (default_config\<lparr>threshold_homography := - 1\<rparr>) [Plane img_still, Plane img_lit] =
     Inr \<lparr>movement_indices = [1, 1], movement_scores = [30],
          transformation_matrices = [Some identity_h]\<rparr>"
  by (simp add: demo_eval default_config_def)

lemma demo_run_negative_feature:
  "detect demo_cv (default_config\<lparr>threshold_feature := - 1\<rparr>) [Plane img_still, Plane img_still] =
     Inr \<lparr>movement_indices = [1], movement_scores = [0],
          transformation_matrices = [Some identity_h]\<rparr>"
  by (simp add: demo_eval default_config_def)

lemma demo_run_negative_homography_still:
  "detect demo_cv (default_config\<lparr>threshold_homography := - 1\<rparr>)
       [Plane img_still, Plane img_still] =
     Inr \<lparr>movement_indices = [1], movement_scores = [0],
          transformation_matrices = [Some identity_h]\<rparr>"
  by (simp add: demo_eval default_config_def)

lemma demo_run_three:
  "detect demo_cv default_config [Plane img_still, Plane img_lit, Plane img_shift4] =
     Inr \<lparr>movement_indices = [1], movement_scores = [30, 10],
          transformation_matrices = [Some identity_h, Some skew_h]\<rparr>"
  by (simp add: demo_eval default_config_def)

lemma flow_features: "goodFeaturesToTrack (flow_cv n) g = Some (Some (flow_corners n))"
  by (simp add: flow_cv_def)

lemma flow_tracker:
  "calcOpticalFlowPyrLK (flow_cv n) p c corners =
     Some (map (\<lambda>q. (fst q + 1, snd q)) corners, map (\<lambda>q. if fst q < 7 then 1 else 0) corners)"
  by (simp add: flow_cv_def)

lemma flow_detected:
  "detected_corners (flow_cv n) g = flow_corners n"
  by (simp add: detected_corners_def flow_cv_def)

lemma flow_corners_length: "length (flow_corners n) = n"
  by (simp add: flow_corners_def)

lemma flow_tracked_8:
  "tracked_points (flow_cv 8) g g' = map (\<lambda>i. ((real i, 0), (real i + 1, 0))) [0..<7]"
  by (simp add: tracked_points_def Let_def flow_detected flow_tracker flow_corners_def upt_rec)

lemma flow_tracked_12:
  "tracked_points (flow_cv 12) g g' = map (\<lambda>i. ((real i, 0), (real i + 1, 0))) [0..<7]"
  by (simp add: tracked_points_def Let_def flow_detected flow_tracker flow_corners_def upt_rec)

lemma flow_displacements:
  "tracked_displacements (flow_cv 8) g g' = [1, 1, 1, 1, 1, 1, 1]"
  "tracked_displacements (flow_cv 12) g g' = [1, 1, 1, 1, 1, 1, 1]"
  by (simp_all add: tracked_displacements_def flow_tracked_8 flow_tracked_12 upt_rec
      point_norm_def point_diff_def)

lemma flow_median: "np_median [1, 1, 1, 1, 1, 1, 1] = 1"
  by (simp add: np_median_def)

section \<open>The claims\<close>

subsection \<open>C1: one score and one matrix per adjacent frame pair\<close>

text \<open>
  Claim C1. For every sequence of \<open>N\<close> frames \<open>detect\<close> returns, and
  \<open>movement_scores\<close> and \<open>transformation_matrices\<close> each have length
  \<open>N - 1\<close> (0 when \<open>N \<le> 1\<close>), whatever keypoints, descriptors and matches the
  frames yield. The only assumption is the contract of the OpenCV routines: matches index
  existing keypoints.
\<close>

theorem detect_lengths:
  assumes "indices_in_range cv"
  shows "\<exists>r. detect cv cfg frames = Inr r
           \<and> length (movement_scores r) = length frames - 1
           \<and> length (transformation_matrices r) = length frames - 1"
proof -
  from detect_loop_returns [OF assms initial_inv, of cfg frames]
  obtain s where "detect_loop cv cfg 0 frames initial_state = Inr s"
    and "loop_inv cv (length frames) s"
    by auto
  then show ?thesis
    unfolding detect_def loop_inv_def by simp
qed

text \<open>
  The theorem applied to a run over three fixture frames.
\<close>

theorem detect_lengths_witness:
  "indices_in_range demo_cv \<and>
   (\<exists>r. detect demo_cv default_config [Plane img_still, Plane img_lit, Plane img_shift4] = Inr r
        \<and> length (movement_scores r) = 2 \<and> length (transformation_matrices r) = 2)"
  using detect_lengths [OF demo_in_range, of default_config
      "[Plane img_still, Plane img_lit, Plane img_shift4]"] demo_in_range
  by (simp add: numeral_2_eq_2)

subsection \<open>C2: the homography path\<close>

text \<open>
  Claim C2, as amended. In a transition with at least \<open>min_match_count\<close> good matches
  for which \<open>findHomography\<close> returns a matrix \<open>h\<close>, and whose weighted
  decomposition is not exactly 0, the recorded score is
  \<open>||(h02,h12)||*1.5 + |atan2(h10,h00)|*30 + |1 - (||(h00,h10)|| + ||(h01,h11)||)/2|*50
  + (|h20|+|h21|)*20 + 0.1*variance\<close> of the per-pair displacements (0 for fewer than two
  pairs), the matrix is stored, and the index is flagged exactly when the score exceeds
  \<open>threshold_homography\<close>.
\<close>

theorem homography_path_transition:
  assumes "prev_frame s = Some pf" and "prev_des s = Some pd"
    and "detectAndCompute cv (to_gray cv fr) = (kp, Some d)"
    and "pd \<noteq> []" and "d \<noteq> []"
    and "min_match_count cfg \<le> int (length (good_matches_of cv pd d))"
    and "gather_pts (prev_kp s) (map queryIdx (good_matches_of cv pd d)) = Inr src"
    and "gather_pts (Some kp) (map trainIdx (good_matches_of cv pd d)) = Inr dst"
    and "findHomography cv src dst = Some h"
    and "spec_homography_score h src dst \<noteq> 0"
  shows "detect_step cv cfg idx fr s
           = Inr (rotate_prev (to_gray cv fr) kp (Some d)
                   (record_transition
                      (if threshold_homography cfg < spec_homography_score h src dst
                       then [idx] else [])
                      (spec_homography_score h src dst) (Some h) s))"
proof -
  have "length src = length dst"
    using gather_pts_length [OF assms(7)] gather_pts_length [OF assms(8)] by simp
  then have sc: "calculate_movement_score (Some h) src dst = spec_homography_score h src dst"
    by (rule calculate_movement_score_homography)
  have "transition_block cv cfg idx pf (prev_kp s) pd (to_gray cv fr) kp d
          = Inr (if threshold_homography cfg < spec_homography_score h src dst then [idx] else [],
                 spec_homography_score h src dst, Some h)"
    using assms(6-10) sc
    unfolding transition_block_def homography_block_def fallback_block_def Let_def
    by simp
  from detect_step_compare [OF assms(1-5) this] show ?thesis .
qed

text \<open>
  The theorem applied to the transition from \<open>img_still\<close> to \<open>img_shift4\<close>: the
  fixture's skewed homography scores 10.
\<close>

theorem homography_path_transition_witness:
  "prev_frame (state_after img_still) = Some img_still
   \<and> prev_des (state_after img_still) = Some (demo_des 4)
   \<and> detectAndCompute demo_cv (to_gray demo_cv (Plane img_shift4))
       = (demo_kps 4 4 0, Some (demo_des 4))
   \<and> demo_des 4 \<noteq> []
   \<and> min_match_count default_config
       \<le> int (length (good_matches_of demo_cv (demo_des 4) (demo_des 4)))
   \<and> gather_pts (prev_kp (state_after img_still))
         (map queryIdx (good_matches_of demo_cv (demo_des 4) (demo_des 4))) = Inr (demo_pts 0 0)
   \<and> gather_pts (Some (demo_kps 4 4 0))
         (map trainIdx (good_matches_of demo_cv (demo_des 4) (demo_des 4))) = Inr (demo_pts 4 0)
   \<and> findHomography demo_cv (demo_pts 0 0) (demo_pts 4 0) = Some skew_h
   \<and> spec_homography_score skew_h (demo_pts 0 0) (demo_pts 4 0) \<noteq> 0
   \<and> detect_step demo_cv default_config 1 (Plane img_shift4) (state_after img_still)
       = Inr (rotate_prev img_shift4 (demo_kps 4 4 0) (Some (demo_des 4))
               (record_transition [] 10 (Some skew_h) (state_after img_still)))"
proof -
  have h1: "prev_frame (state_after img_still) = Some img_still"
    and h2: "prev_des (state_after img_still) = Some (demo_des 4)"
    by (simp_all add: state_after_still)
  have h3: "detectAndCompute demo_cv (to_gray demo_cv (Plane img_shift4))
              = (demo_kps 4 4 0, Some (demo_des 4))"
    by (simp add: demo_to_gray demo_dac)
  have h4: "demo_des 4 \<noteq> []"
    by (simp add: demo_des_nonempty)
  have h5: "min_match_count default_config
              \<le> int (length (good_matches_of demo_cv (demo_des 4) (demo_des 4)))"
    by (simp add: demo_good demo_matches_length default_config_def)
  have h6: "gather_pts (prev_kp (state_after img_still))
              (map queryIdx (good_matches_of demo_cv (demo_des 4) (demo_des 4)))
              = Inr (demo_pts 0 0)"
    by (simp add: state_after_still demo_good demo_gather)
  have h7: "gather_pts (Some (demo_kps 4 4 0))
              (map trainIdx (good_matches_of demo_cv (demo_des 4) (demo_des 4)))
              = Inr (demo_pts 4 0)"
    by (simp add: demo_good demo_gather)
  have h8: "findHomography demo_cv (demo_pts 0 0) (demo_pts 4 0) = Some skew_h"
    by (simp add: demo_homography)
  have h9: "spec_homography_score skew_h (demo_pts 0 0) (demo_pts 4 0) \<noteq> 0"
    by (simp add: demo_scores)
  from homography_path_transition [OF h1 h2 h3 h4 h4 h5 h6 h7 h8 h9, of 1]
  show ?thesis
    using h1 h2 h3 h4 h5 h6 h7 h8 h9
    by (simp add: demo_scores demo_to_gray default_config_def)
qed

text \<open>
  The claim without the amendment fails. From \<open>img_still\<close> to \<open>img_lit\<close> there
  are four good matches, the homography is the identity and its decomposition is 0; the
  recorded score is 30, the fallback's value, and index 1 is flagged although 0 does not
  exceed the homography threshold 15.
\<close>

theorem homography_path_counterexample:
  "detectAndCompute demo_cv (to_gray demo_cv (Plane img_still))
       = (demo_kps 4 0 0, Some (demo_des 4))
   \<and> detectAndCompute demo_cv (to_gray demo_cv (Plane img_lit))
       = (demo_kps 4 0 0, Some (demo_des 4))
   \<and> good_matches_of demo_cv (demo_des 4) (demo_des 4) = demo_matches 4
   \<and> min_match_count default_config \<le> int (length (demo_matches 4))
   \<and> gather_pts (Some (demo_kps 4 0 0)) (map queryIdx (demo_matches 4)) = Inr (demo_pts 0 0)
   \<and> gather_pts (Some (demo_kps 4 0 0)) (map trainIdx (demo_matches 4)) = Inr (demo_pts 0 0)
   \<and> findHomography demo_cv (demo_pts 0 0) (demo_pts 0 0) = Some identity_h
   \<and> spec_homography_score identity_h (demo_pts 0 0) (demo_pts 0 0) = 0
   \<and> threshold_homography default_config = 15
   \<and> detect demo_cv default_config [Plane img_still, Plane img_lit]
       = Inr \<lparr>movement_indices = [1], movement_scores = [30],
              transformation_matrices = [Some identity_h]\<rparr>"
  using demo_run_lit
  by (simp add: demo_to_gray demo_dac demo_good demo_matches_length demo_gather demo_homography
      demo_scores default_config_def)

subsection \<open>C3: the fallback path\<close>

text \<open>
  Claim C3, as amended. In a transition between two frames that both have a non-empty
  descriptor set and fewer than \<open>min_match_count\<close> good matches, the recorded score is the
  maximum of the three fallback signals on the two grey frames, no matrix is stored, and the
  index is flagged exactly when that maximum exceeds \<open>threshold_feature\<close>. In a transition
  where the descriptor set of either frame is absent or empty, the recorded score is 0, no
  matrix is stored and nothing is flagged.
\<close>

theorem fallback_path_transition:
  "(prev_frame s = Some pf \<and> prev_des s = Some pd
      \<and> detectAndCompute cv (to_gray cv fr) = (kp, Some d) \<and> pd \<noteq> [] \<and> d \<noteq> []
      \<and> int (length (good_matches_of cv pd d)) < min_match_count cfg
    \<longrightarrow> detect_step cv cfg idx fr s
          = Inr (rotate_prev (to_gray cv fr) kp (Some d)
                  (record_transition
                     (if threshold_feature cfg < fallback_score cv pf (to_gray cv fr)
                      then [idx] else [])
                     (fallback_score cv pf (to_gray cv fr)) None s)))
   \<and> (prev_frame s = Some pf \<and> 0 < idx
      \<and> detectAndCompute cv (to_gray cv fr) = (kp, des)
      \<and> (prev_des s = None \<or> prev_des s = Some [] \<or> des = None \<or> des = Some [])
    \<longrightarrow> detect_step cv cfg idx fr s
          = Inr (rotate_prev (to_gray cv fr) kp des (record_transition [] 0 None s)))"
proof (intro conjI impI)
  assume a: "prev_frame s = Some pf \<and> prev_des s = Some pd
      \<and> detectAndCompute cv (to_gray cv fr) = (kp, Some d) \<and> pd \<noteq> [] \<and> d \<noteq> []
      \<and> int (length (good_matches_of cv pd d)) < min_match_count cfg"
  then have "transition_block cv cfg idx pf (prev_kp s) pd (to_gray cv fr) kp d
          = Inr (if threshold_feature cfg < fallback_score cv pf (to_gray cv fr)
                 then [idx] else [],
                 fallback_score cv pf (to_gray cv fr), None)"
    unfolding transition_block_def homography_block_def fallback_block_def Let_def
    by simp
  with a show "detect_step cv cfg idx fr s
          = Inr (rotate_prev (to_gray cv fr) kp (Some d)
                  (record_transition
                     (if threshold_feature cfg < fallback_score cv pf (to_gray cv fr)
                      then [idx] else [])
                     (fallback_score cv pf (to_gray cv fr)) None s))"
    by (intro detect_step_compare) auto
next
  assume "prev_frame s = Some pf \<and> 0 < idx
      \<and> detectAndCompute cv (to_gray cv fr) = (kp, des)
      \<and> (prev_des s = None \<or> prev_des s = Some [] \<or> des = None \<or> des = Some [])"
  then show "detect_step cv cfg idx fr s
          = Inr (rotate_prev (to_gray cv fr) kp des (record_transition [] 0 None s))"
    unfolding detect_step_def Let_def
    by (auto split: option.splits)
qed

text \<open>
  Both halves of the theorem applied: from \<open>img_still\<close> to \<open>img_few\<close> (two
  matches) and from \<open>img_still\<close> to \<open>img_blank\<close> (empty descriptor set).
\<close>

theorem fallback_path_transition_witness:
  "prev_frame (state_after img_still) = Some img_still
   \<and> prev_des (state_after img_still) = Some (demo_des 4)
   \<and> detectAndCompute demo_cv (to_gray demo_cv (Plane img_few))
       = (demo_kps 2 0 0, Some (demo_des 2))
   \<and> demo_des 4 \<noteq> [] \<and> demo_des 2 \<noteq> []
   \<and> int (length (good_matches_of demo_cv (demo_des 4) (demo_des 2)))
       < min_match_count default_config
   \<and> detect_step demo_cv default_config 1 (Plane img_few) (state_after img_still)
       = Inr (rotate_prev img_few (demo_kps 2 0 0) (Some (demo_des 2))
               (record_transition [1] (601 / 20) None (state_after img_still)))
   \<and> (0::nat) < 1
   \<and> detectAndCompute demo_cv (to_gray demo_cv (Plane img_blank)) = ([], Some [])
   \<and> detect_step demo_cv default_config 1 (Plane img_blank) (state_after img_still)
       = Inr (rotate_prev img_blank [] (Some [])
               (record_transition [] 0 None (state_after img_still)))"
proof -
  have a: "prev_frame (state_after img_still) = Some img_still
      \<and> prev_des (state_after img_still) = Some (demo_des 4)
      \<and> detectAndCompute demo_cv (to_gray demo_cv (Plane img_few))
          = (demo_kps 2 0 0, Some (demo_des 2))
      \<and> demo_des 4 \<noteq> [] \<and> demo_des 2 \<noteq> []
      \<and> int (length (good_matches_of demo_cv (demo_des 4) (demo_des 2)))
          < min_match_count default_config"
    by (simp add: state_after_still demo_to_gray demo_dac demo_des_nonempty demo_good
        demo_matches_length default_config_def)
  have b: "prev_frame (state_after img_still) = Some img_still \<and> (0::nat) < 1
      \<and> detectAndCompute demo_cv (to_gray demo_cv (Plane img_blank)) = ([], Some [])
      \<and> (prev_des (state_after img_still) = None \<or> prev_des (state_after img_still) = Some []
          \<or> Some [] = (None :: descriptors option) \<or> Some [] = Some ([] :: descriptors))"
    by (simp add: state_after_still demo_to_gray demo_dac)
  from fallback_path_transition [where s = "state_after img_still" and pf = img_still
      and pd = "demo_des 4" and cv = demo_cv and fr = "Plane img_few" and kp = "demo_kps 2 0 0"
      and d = "demo_des 2" and cfg = default_config and idx = 1]
    fallback_path_transition [where s = "state_after img_still" and pf = img_still
      and cv = demo_cv and fr = "Plane img_blank" and kp = "[]" and des = "Some []"
      and cfg = default_config and idx = 1] a b
  show ?thesis
    by (simp add: demo_fallback demo_to_gray default_config_def)
qed

text \<open>
  The claim without the amendment fails. \<open>img_blank\<close> has an empty descriptor array
  and \<open>img_none\<close> has none at all; the maximum of the three fallback signals between
  \<open>img_still\<close> and either of them (241/8 and 301/10) is above the feature threshold 5,
  yet the recorded score is 0 and nothing is flagged.
\<close>

theorem fallback_path_counterexample:
  "detectAndCompute demo_cv (to_gray demo_cv (Plane img_still))
       = (demo_kps 4 0 0, Some (demo_des 4))
   \<and> detectAndCompute demo_cv (to_gray demo_cv (Plane img_blank)) = ([], Some [])
   \<and> fallback_score demo_cv img_still img_blank = 241 / 8
   \<and> detectAndCompute demo_cv (to_gray demo_cv (Plane img_none)) = ([], None)
   \<and> fallback_score demo_cv img_still img_none = 301 / 10
   \<and> threshold_feature default_config = 5
   \<and> detect demo_cv default_config [Plane img_still, Plane img_blank]
       = Inr \<lparr>movement_indices = [], movement_scores = [0],
              transformation_matrices = [None]\<rparr>
   \<and> detect demo_cv default_config [Plane img_still, Plane img_none]
       = Inr \<lparr>movement_indices = [], movement_scores = [0],
              transformation_matrices = [None]\<rparr>"
  using demo_run_blank demo_run_none
  by (simp add: demo_to_gray demo_dac demo_fallback default_config_def)

subsection \<open>C4: the degenerate-homography path\<close>

text \<open>
  Claim C4, as amended. In a transition with at least \<open>min_match_count\<close> good matches
  for which \<open>findHomography\<close> returns nothing, and whose median displacement plus 0.1
  times the displacement variance is not exactly 0, the recorded score is that value, no
  matrix is stored, and the index is flagged exactly when the score exceeds
  \<open>threshold_homography * 0.5\<close>.
\<close>

theorem degenerate_path_transition:
  assumes "prev_frame s = Some pf" and "prev_des s = Some pd"
    and "detectAndCompute cv (to_gray cv fr) = (kp, Some d)"
    and "pd \<noteq> []" and "d \<noteq> []"
    and "min_match_count cfg \<le> int (length (good_matches_of cv pd d))"
    and "gather_pts (prev_kp s) (map queryIdx (good_matches_of cv pd d)) = Inr src"
    and "gather_pts (Some kp) (map trainIdx (good_matches_of cv pd d)) = Inr dst"
    and "findHomography cv src dst = None"
    and "spec_degenerate_score src dst \<noteq> 0"
  shows "detect_step cv cfg idx fr s
           = Inr (rotate_prev (to_gray cv fr) kp (Some d)
                   (record_transition
                      (if threshold_homography cfg * 0.5 < spec_degenerate_score src dst
                       then [idx] else [])
                      (spec_degenerate_score src dst) None s))"
proof -
  have "length src = length dst"
    using gather_pts_length [OF assms(7)] gather_pts_length [OF assms(8)] by simp
  then have sc: "calculate_movement_score None src dst = spec_degenerate_score src dst"
    by (rule calculate_movement_score_degenerate)
  have "transition_block cv cfg idx pf (prev_kp s) pd (to_gray cv fr) kp d
          = Inr (if threshold_homography cfg * 0.5 < spec_degenerate_score src dst
                 then [idx] else [],
                 spec_degenerate_score src dst, None)"
    using assms(6-10) sc
    unfolding transition_block_def homography_block_def fallback_block_def Let_def
    by simp
  from detect_step_compare [OF assms(1-5) this] show ?thesis .
qed

text \<open>
  The theorem applied to the transition from \<open>img_still\<close> to \<open>img_shift2\<close>: every
  point moves by 2, the score is 2.
\<close>

theorem degenerate_path_transition_witness:
  "prev_frame (state_after img_still) = Some img_still
   \<and> prev_des (state_after img_still) = Some (demo_des 4)
   \<and> detectAndCompute demo_cv (to_gray demo_cv (Plane img_shift2))
       = (demo_kps 4 2 0, Some (demo_des 4))
   \<and> demo_des 4 \<noteq> []
   \<and> min_match_count default_config
       \<le> int (length (good_matches_of demo_cv (demo_des 4) (demo_des 4)))
   \<and> gather_pts (prev_kp (state_after img_still))
         (map queryIdx (good_matches_of demo_cv (demo_des 4) (demo_des 4))) = Inr (demo_pts 0 0)
   \<and> gather_pts (Some (demo_kps 4 2 0))
         (map trainIdx (good_matches_of demo_cv (demo_des 4) (demo_des 4))) = Inr (demo_pts 2 0)
   \<and> findHomography demo_cv (demo_pts 0 0) (demo_pts 2 0) = None
   \<and> spec_degenerate_score (demo_pts 0 0) (demo_pts 2 0) \<noteq> 0
   \<and> detect_step demo_cv default_config 1 (Plane img_shift2) (state_after img_still)
       = Inr (rotate_prev img_shift2 (demo_kps 4 2 0) (Some (demo_des 4))
               (record_transition [] 2 None (state_after img_still)))"
proof -
  have h1: "prev_frame (state_after img_still) = Some img_still"
    and h2: "prev_des (state_after img_still) = Some (demo_des 4)"
    by (simp_all add: state_after_still)
  have h3: "detectAndCompute demo_cv (to_gray demo_cv (Plane img_shift2))
              = (demo_kps 4 2 0, Some (demo_des 4))"
    by (simp add: demo_to_gray demo_dac)
  have h4: "demo_des 4 \<noteq> []"
    by (simp add: demo_des_nonempty)
  have h5: "min_match_count default_config
              \<le> int (length (good_matches_of demo_cv (demo_des 4) (demo_des 4)))"
    by (simp add: demo_good demo_matches_length default_config_def)
  have h6: "gather_pts (prev_kp (state_after img_still))
              (map queryIdx (good_matches_of demo_cv (demo_des 4) (demo_des 4)))
              = Inr (demo_pts 0 0)"
    by (simp add: state_after_still demo_good demo_gather)
  have h7: "gather_pts (Some (demo_kps 4 2 0))
              (map trainIdx (good_matches_of demo_cv (demo_des 4) (demo_des 4)))
              = Inr (demo_pts 2 0)"
    by (simp add: demo_good demo_gather)
  have h8: "findHomography demo_cv (demo_pts 0 0) (demo_pts 2 0) = None"
    by (simp add: demo_homography)
  have h9: "spec_degenerate_score (demo_pts 0 0) (demo_pts 2 0) \<noteq> 0"
    by (simp add: demo_scores)
  from degenerate_path_transition [OF h1 h2 h3 h4 h4 h5 h6 h7 h8 h9, of 1]
  show ?thesis
    using h1 h2 h3 h4 h5 h6 h7 h8 h9
    by (simp add: demo_scores demo_to_gray default_config_def)
qed

text \<open>
  The claim without the amendment fails. From \<open>img_tilt\<close> to \<open>img_tilt_lit\<close>
  there are four good matches, no homography, and all displacements are 0; the recorded score
  is 30, the fallback's value, not 0.
\<close>

theorem degenerate_path_counterexample:
  "detectAndCompute demo_cv (to_gray demo_cv (Plane img_tilt))
       = (demo_kps 4 0 2, Some (demo_des 4))
   \<and> detectAndCompute demo_cv (to_gray demo_cv (Plane img_tilt_lit))
       = (demo_kps 4 0 2, Some (demo_des 4))
   \<and> good_matches_of demo_cv (demo_des 4) (demo_des 4) = demo_matches 4
   \<and> min_match_count default_config \<le> int (length (demo_matches 4))
   \<and> gather_pts (Some (demo_kps 4 0 2)) (map queryIdx (demo_matches 4)) = Inr (demo_pts 0 2)
   \<and> gather_pts (Some (demo_kps 4 0 2)) (map trainIdx (demo_matches 4)) = Inr (demo_pts 0 2)
   \<and> findHomography demo_cv (demo_pts 0 2) (demo_pts 0 2) = None
   \<and> spec_degenerate_score (demo_pts 0 2) (demo_pts 0 2) = 0
   \<and> detect demo_cv default_config [Plane img_tilt, Plane img_tilt_lit]
       = Inr \<lparr>movement_indices = [1], movement_scores = [30],
              transformation_matrices = [None]\<rparr>"
  using demo_run_tilt
  by (simp add: demo_to_gray demo_dac demo_good demo_matches_length demo_gather demo_homography
      demo_scores default_config_def)

subsection \<open>C5: the invariant of the result\<close>

text \<open>
  Claim C5, as amended. For every frame sequence of length \<open>N\<close> and every
  configuration with non-negative thresholds, \<open>detect\<close> returns a result
  whose \<open>movement_indices\<close> ascend strictly and lie in \<open>1 .. N - 1\<close>, whose
  \<open>N - 1\<close> scores are all non-negative, and in which every flagged index has a
  strictly positive score at its transition.
\<close>

theorem detect_result_invariant:
  assumes "indices_in_range cv"
    and "0 \<le> threshold_feature cfg" and "0 \<le> threshold_homography cfg"
  shows "\<exists>r. detect cv cfg frames = Inr r \<and> result_invariant (length frames) r"
proof -
  from detect_loop_returns [OF assms(1) initial_inv, of cfg frames]
  obtain s where s: "detect_loop cv cfg 0 frames initial_state = Inr s"
    and li: "loop_inv cv (length frames) s"
    by auto
  have nn: "\<forall>x \<in> set (movement_scores s). 0 \<le> x"
    by (rule detect_loop_nonneg [OF s]) (simp add: initial_state_def)
  have "flags_inv 0 initial_state"
    unfolding flags_inv_def initial_state_def by simp
  from detect_loop_flags [OF s initial_inv this assms(2,3)]
  have fi: "flags_inv (length frames) s" by simp
  have "result_invariant (length frames)
          \<lparr>movement_indices = movement_indices s, movement_scores = movement_scores s,
           transformation_matrices = transformation_matrices s\<rparr>"
    using li nn fi unfolding result_invariant_def loop_inv_def flags_inv_def
    by auto
  then show ?thesis
    using s unfolding detect_def by simp
qed

text \<open>
  The theorem applied to a run over three fixture frames under the default thresholds.
\<close>

theorem detect_result_invariant_witness:
  "indices_in_range demo_cv \<and> 0 \<le> threshold_feature default_config
   \<and> 0 \<le> threshold_homography default_config
   \<and> (\<exists>r. detect demo_cv default_config [Plane img_still, Plane img_lit, Plane img_shift4] = Inr r
         \<and> result_invariant (length [Plane img_still, Plane img_lit, Plane img_shift4]) r)"
proof -
  have thr: "0 \<le> threshold_feature default_config" "0 \<le> threshold_homography default_config"
    by (simp_all add: default_config_def)
  from detect_result_invariant [OF demo_in_range thr,
      of "[Plane img_still, Plane img_lit, Plane img_shift4]"]
  show ?thesis
    using demo_in_range thr by blast
qed

text \<open>
  For every configuration the claim fails. With a homography threshold of -1 the transition
  from \<open>img_still\<close> to \<open>img_lit\<close> is appended twice, so the indices do not ascend
  strictly; with a feature threshold of -1 the transition between two equal frames is flagged
  with score 0.
\<close>

theorem detect_result_invariant_counterexample:
  "detect demo_cv (default_config\<lparr>threshold_homography := - 1\<rparr>) [Plane img_still, Plane img_lit]
       = Inr \<lparr>movement_indices = [1, 1], movement_scores = [30],
              transformation_matrices = [Some identity_h]\<rparr>
   \<and> \<not> result_invariant 2 \<lparr>movement_indices = [1, 1], movement_scores = [30],
              transformation_matrices = [Some identity_h]\<rparr>
   \<and> detect demo_cv (default_config\<lparr>threshold_feature := - 1\<rparr>)
         [Plane img_still, Plane img_still]
       = Inr \<lparr>movement_indices = [1], movement_scores = [0],
              transformation_matrices = [Some identity_h]\<rparr>
   \<and> \<not> result_invariant 2 \<lparr>movement_indices = [1], movement_scores = [0],
              transformation_matrices = [Some identity_h]\<rparr>"
  using demo_run_negative_homography demo_run_negative_feature
  by (simp add: result_invariant_def)

subsection \<open>C6: scores are never negative\<close>

text \<open>
  Claim C6. Every element of the \<open>movement_scores\<close> that \<open>detect\<close> returns is at
  least 0, for every frame sequence and every configuration: the homography decomposition,
  the median-plus-variance score and the three fallback signals, with their value 0 on a
  raised exception, are all non-negative.
\<close>

theorem detect_scores_nonneg:
  assumes "indices_in_range cv"
  shows "\<exists>r. detect cv cfg frames = Inr r \<and> (\<forall>x \<in> set (movement_scores r). 0 \<le> x)"
proof -
  from detect_loop_returns [OF assms initial_inv, of cfg frames]
  obtain s where s: "detect_loop cv cfg 0 frames initial_state = Inr s"
    by auto
  have "\<forall>x \<in> set (movement_scores s). 0 \<le> x"
    by (rule detect_loop_nonneg [OF s]) (simp add: initial_state_def)
  then show ?thesis
    using s unfolding detect_def by simp
qed

text \<open>
  The theorem applied to a run over three fixture frames.
\<close>

theorem detect_scores_nonneg_witness:
  "indices_in_range demo_cv \<and>
   (\<exists>r. detect demo_cv default_config [Plane img_still, Plane img_lit, Plane img_shift4] = Inr r
        \<and> (\<forall>x \<in> set (movement_scores r). 0 \<le> x))"
  using detect_scores_nonneg [OF demo_in_range, of default_config
      "[Plane img_still, Plane img_lit, Plane img_shift4]"] demo_in_range
  by (simp add: numeral_2_eq_2)

subsection \<open>C7: lower thresholds never flag less\<close>

text \<open>
  Claim C7. For a fixed frame sequence and a fixed \<open>min_match_count\<close>, a run with a
  feature threshold and a homography threshold that are each at most those of another run
  flags every index the other run flags, and at least as many.
\<close>

theorem detect_monotonic_sensitivity:
  assumes "indices_in_range cv"
    and "threshold_feature cfg' \<le> threshold_feature cfg"
    and "threshold_homography cfg' \<le> threshold_homography cfg"
    and "min_match_count cfg' = min_match_count cfg"
  shows "\<exists>r r'. detect cv cfg frames = Inr r \<and> detect cv cfg' frames = Inr r' \<and>
           set (movement_indices r) \<subseteq> set (movement_indices r') \<and>
           card (set (movement_indices r)) \<le> card (set (movement_indices r')) \<and>
           length (movement_indices r) \<le> length (movement_indices r')"
proof -
  from detect_loop_returns [OF assms(1) initial_inv, of cfg frames]
  obtain s where s: "detect_loop cv cfg 0 frames initial_state = Inr s"
    by auto
  have "same_run initial_state initial_state"
    unfolding same_run_def by (simp add: more_flags_refl)
  from detect_loop_mono [OF s this assms(2-4)]
  obtain t where t: "detect_loop cv cfg' 0 frames initial_state = Inr t" and "same_run s t"
    by blast
  then have "set (movement_indices s) \<subseteq> set (movement_indices t)"
    and "length (movement_indices s) \<le> length (movement_indices t)"
    unfolding same_run_def more_flags_def by auto
  moreover from this have "card (set (movement_indices s)) \<le> card (set (movement_indices t))"
    by (intro card_mono) auto
  ultimately show ?thesis
    using s t unfolding detect_def by simp
qed

text \<open>
  The theorem applied to the feature thresholds 50 and 5: the first run flags nothing, the
  second flags index 1.
\<close>

theorem detect_monotonic_sensitivity_witness:
  "indices_in_range demo_cv
   \<and> threshold_feature default_config \<le> threshold_feature strict_config
   \<and> threshold_homography default_config \<le> threshold_homography strict_config
   \<and> min_match_count default_config = min_match_count strict_config
   \<and> (\<exists>r r'. detect demo_cv strict_config [Plane img_still, Plane img_lit] = Inr r
         \<and> detect demo_cv default_config [Plane img_still, Plane img_lit] = Inr r'
         \<and> set (movement_indices r) \<subseteq> set (movement_indices r')
         \<and> card (set (movement_indices r)) \<le> card (set (movement_indices r'))
         \<and> length (movement_indices r) \<le> length (movement_indices r'))"
proof -
  have thr: "threshold_feature default_config \<le> threshold_feature strict_config"
    "threshold_homography default_config \<le> threshold_homography strict_config"
    "min_match_count default_config = min_match_count strict_config"
    by (simp_all add: default_config_def strict_config_def)
  from detect_monotonic_sensitivity [OF demo_in_range thr, of "[Plane img_still, Plane img_lit]"]
  show ?thesis
    using demo_in_range thr by blast
qed

subsection \<open>C8: the empty frame sequence\<close>

text \<open>
  Claim C8, as amended. On the empty frame sequence \<open>detect\<close> raises nothing: it
  returns a normal result whose three lists are empty.
\<close>

theorem detect_empty_sequence:
  "detect cv cfg [] =
     Inr \<lparr>movement_indices = [], movement_scores = [], transformation_matrices = []\<rparr>"
  by (simp add: detect_def initial_state_def)

text \<open>
  The claim that the empty sequence is rejected fails: the call on the fixture returns a
  result and raises neither of the errors \<open>detect\<close> can raise.
\<close>

theorem detect_empty_sequence_counterexample:
  "detect demo_cv default_config [] \<noteq> Inl IndexError
   \<and> detect demo_cv default_config [] \<noteq> Inl TypeError
   \<and> detect demo_cv default_config [] =
       Inr \<lparr>movement_indices = [], movement_scores = [], transformation_matrices = []\<rparr>"
  by (simp add: detect_def initial_state_def)

subsection \<open>C9: the sparse optical-flow signal\<close>

text \<open>
  Claim C9, as amended. The sparse optical-flow signal is 3 times the median displacement of
  the successfully tracked corners whenever more than 10 corners were found in the previous
  frame and at least 6 of them were tracked successfully, and 0 otherwise.
\<close>

theorem optical_flow_score_value:
  "calculate_optical_flow_score cv prv cur =
     (if 10 < length (detected_corners cv prv) \<and> 6 \<le> length (tracked_points cv prv cur)
      then np_median (tracked_displacements cv prv cur) * 3 else 0)"
proof (cases "goodFeaturesToTrack cv prv")
  case None
  then show ?thesis
    unfolding calculate_optical_flow_score_def detected_corners_def by simp
next
  case (Some oc)
  show ?thesis
  proof (cases oc)
    case None
    with Some show ?thesis
      unfolding calculate_optical_flow_score_def detected_corners_def by simp
  next
    case (Some corners)
    note gf = \<open>goodFeaturesToTrack cv prv = Some oc\<close> [unfolded Some]
    have dc: "detected_corners cv prv = corners"
      using gf unfolding detected_corners_def by simp
    show ?thesis
    proof (cases "10 < length corners")
      case False
      then show ?thesis
        using gf dc unfolding calculate_optical_flow_score_def by simp
    next
      case True
      show ?thesis
      proof (cases "calcOpticalFlowPyrLK cv prv cur corners")
        case None
        then show ?thesis
          using gf dc unfolding calculate_optical_flow_score_def tracked_points_def by simp
      next
        case (Some r)
        obtain nx st where r: "r = (nx, st)" by (cases r)
        show ?thesis
        proof (cases "length corners = length st \<and> length nx = length st")
          case True
          with optical_flow_score_tracked [OF gf \<open>10 < length corners\<close> Some [unfolded r]]
          show ?thesis using dc \<open>10 < length corners\<close> by simp
        next
          case False
          then show ?thesis
            using gf dc Some r
            unfolding calculate_optical_flow_score_def tracked_points_def mask_select_def
            by (auto split: option.splits)
        qed
      qed
    qed
  qed
qed

text \<open>
  The theorem applied to 12 corners of which 7 are tracked, each moved by one pixel.
\<close>

theorem optical_flow_score_value_witness:
  "10 < length (detected_corners (flow_cv 12) img_still)
   \<and> 6 \<le> length (tracked_points (flow_cv 12) img_still img_lit)
   \<and> calculate_optical_flow_score (flow_cv 12) img_still img_lit = 3"
  using optical_flow_score_value [of "flow_cv 12" img_still img_lit]
  by (simp add: flow_detected flow_corners_length flow_tracked_12 flow_displacements flow_median)

text \<open>
  Without the condition on the number of corners the claim fails: with 8 corners of which 7
  are tracked, each moved by one pixel, the claim gives 3 and the code returns 0.
\<close>

theorem optical_flow_score_counterexample:
  "length (detected_corners (flow_cv 8) img_still) = 8
   \<and> length (tracked_points (flow_cv 8) img_still img_lit) = 7
   \<and> np_median (tracked_displacements (flow_cv 8) img_still img_lit) * 3 = 3
   \<and> calculate_optical_flow_score (flow_cv 8) img_still img_lit = 0"
  by (simp add: flow_detected flow_corners_length flow_tracked_8 flow_displacements flow_median
      calculate_optical_flow_score_def flow_features flow_corners_length)

subsection \<open>C10: a homography whose score is exactly 0\<close>

text \<open>
  Claim C10, as amended. In a transition with at least \<open>min_match_count\<close> good
  matches for which \<open>findHomography\<close> returns a matrix whose decomposition score is
  exactly 0, and with a non-negative \<open>threshold_homography\<close>, the recorded score is the
  maximum of the three fallback signals, the index is flagged exactly when that maximum exceeds
  \<open>threshold_feature\<close>, and the estimated matrix is stored all the same.
\<close>

theorem zero_homography_score_transition:
  assumes "prev_frame s = Some pf" and "prev_des s = Some pd"
    and "detectAndCompute cv (to_gray cv fr) = (kp, Some d)"
    and "pd \<noteq> []" and "d \<noteq> []"
    and "min_match_count cfg \<le> int (length (good_matches_of cv pd d))"
    and "gather_pts (prev_kp s) (map queryIdx (good_matches_of cv pd d)) = Inr src"
    and "gather_pts (Some kp) (map trainIdx (good_matches_of cv pd d)) = Inr dst"
    and "findHomography cv src dst = Some h"
    and "calculate_movement_score (Some h) src dst = 0"
    and "0 \<le> threshold_homography cfg"
  shows "detect_step cv cfg idx fr s
           = Inr (rotate_prev (to_gray cv fr) kp (Some d)
                   (record_transition
                      (if threshold_feature cfg < fallback_score cv pf (to_gray cv fr)
                       then [idx] else [])
                      (fallback_score cv pf (to_gray cv fr)) (Some h) s))"
proof -
  have "transition_block cv cfg idx pf (prev_kp s) pd (to_gray cv fr) kp d
          = Inr (if threshold_feature cfg < fallback_score cv pf (to_gray cv fr)
                 then [idx] else [],
                 fallback_score cv pf (to_gray cv fr), Some h)"
    using assms(6-11)
    unfolding transition_block_def homography_block_def fallback_block_def Let_def
    by simp
  from detect_step_compare [OF assms(1-5) this] show ?thesis .
qed

text \<open>
  The theorem applied to the transition from \<open>img_still\<close> to \<open>img_lit\<close>.
\<close>

theorem zero_homography_score_transition_witness:
  "prev_frame (state_after img_still) = Some img_still
   \<and> prev_des (state_after img_still) = Some (demo_des 4)
   \<and> detectAndCompute demo_cv (to_gray demo_cv (Plane img_lit))
       = (demo_kps 4 0 0, Some (demo_des 4))
   \<and> demo_des 4 \<noteq> []
   \<and> min_match_count default_config
       \<le> int (length (good_matches_of demo_cv (demo_des 4) (demo_des 4)))
   \<and> gather_pts (prev_kp (state_after img_still))
         (map queryIdx (good_matches_of demo_cv (demo_des 4) (demo_des 4))) = Inr (demo_pts 0 0)
   \<and> gather_pts (Some (demo_kps 4 0 0))
         (map trainIdx (good_matches_of demo_cv (demo_des 4) (demo_des 4))) = Inr (demo_pts 0 0)
   \<and> findHomography demo_cv (demo_pts 0 0) (demo_pts 0 0) = Some identity_h
   \<and> calculate_movement_score (Some identity_h) (demo_pts 0 0) (demo_pts 0 0) = 0
   \<and> 0 \<le> threshold_homography default_config
   \<and> detect_step demo_cv default_config 1 (Plane img_lit) (state_after img_still)
       = Inr (rotate_prev img_lit (demo_kps 4 0 0) (Some (demo_des 4))
               (record_transition [1] 30 (Some identity_h) (state_after img_still)))"
proof -
  have h1: "prev_frame (state_after img_still) = Some img_still"
    and h2: "prev_des (state_after img_still) = Some (demo_des 4)"
    by (simp_all add: state_after_still)
  have h3: "detectAndCompute demo_cv (to_gray demo_cv (Plane img_lit))
              = (demo_kps 4 0 0, Some (demo_des 4))"
    by (simp add: demo_to_gray demo_dac)
  have h4: "demo_des 4 \<noteq> []"
    by (simp add: demo_des_nonempty)
  have h5: "min_match_count default_config
              \<le> int (length (good_matches_of demo_cv (demo_des 4) (demo_des 4)))"
    by (simp add: demo_good demo_matches_length default_config_def)
  have h6: "gather_pts (prev_kp (state_after img_still))
              (map queryIdx (good_matches_of demo_cv (demo_des 4) (demo_des 4)))
              = Inr (demo_pts 0 0)"
    by (simp add: state_after_still demo_good demo_gather)
  have h7: "gather_pts (Some (demo_kps 4 0 0))
              (map trainIdx (good_matches_of demo_cv (demo_des 4) (demo_des 4)))
              = Inr (demo_pts 0 0)"
    by (simp add: demo_good demo_gather)
  have h8: "findHomography demo_cv (demo_pts 0 0) (demo_pts 0 0) = Some identity_h"
    by (simp add: demo_homography)
  have h9: "calculate_movement_score (Some identity_h) (demo_pts 0 0) (demo_pts 0 0) = 0"
    by (rule demo_score_identity_still)
  have h10: "0 \<le> threshold_homography default_config"
    by (simp add: default_config_def)
  from zero_homography_score_transition [OF h1 h2 h3 h4 h4 h5 h6 h7 h8 h9 h10, of 1]
  show ?thesis
    using h1 h2 h3 h4 h5 h6 h7 h8 h9 h10
    by (simp add: demo_fallback demo_to_gray default_config_def)
qed

text \<open>
  With a negative homography threshold the claim fails. Between two equal frames the
  decomposition score is 0 and the maximum of the fallback signals is 0, below the feature
  threshold 5; with a homography threshold of -1 index 1 is flagged nevertheless.
\<close>

theorem zero_homography_score_counterexample:
  "detectAndCompute demo_cv (to_gray demo_cv (Plane img_still))
       = (demo_kps 4 0 0, Some (demo_des 4))
   \<and> good_matches_of demo_cv (demo_des 4) (demo_des 4) = demo_matches 4
   \<and> min_match_count (default_config\<lparr>threshold_homography := - 1\<rparr>)
       \<le> int (length (demo_matches 4))
   \<and> gather_pts (Some (demo_kps 4 0 0)) (map queryIdx (demo_matches 4)) = Inr (demo_pts 0 0)
   \<and> gather_pts (Some (demo_kps 4 0 0)) (map trainIdx (demo_matches 4)) = Inr (demo_pts 0 0)
   \<and> findHomography demo_cv (demo_pts 0 0) (demo_pts 0 0) = Some identity_h
   \<and> calculate_movement_score (Some identity_h) (demo_pts 0 0) (demo_pts 0 0) = 0
   \<and> fallback_score demo_cv img_still img_still = 0
   \<and> threshold_feature (default_config\<lparr>threshold_homography := - 1\<rparr>) = 5
   \<and> detect demo_cv (default_config\<lparr>threshold_homography := - 1\<rparr>)
         [Plane img_still, Plane img_still]
       = Inr \<lparr>movement_indices = [1], movement_scores = [0],
              transformation_matrices = [Some identity_h]\<rparr>"
  using demo_run_negative_homography_still
  by (simp add: demo_to_gray demo_dac demo_good demo_matches_length demo_gather demo_homography
      demo_score_identity_still demo_fallback default_config_def)

end
